theory Spec2Isabelle
  imports Main "HOL-Library.Multiset"
begin

section \<open>Python values used by the cookie locator\<close>

text \<open>
  A Python \<open>str\<close> is modelled as an Isabelle \<open>string\<close>, one \<open>char\<close> per character: the
  texts of the model hold the characters up to U+00FF, a \<open>char\<close> being the character of
  that code point. A \<open>bytes\<close> object is a \<open>string\<close> too, one \<open>char\<close> per byte. A text
  decoded from bytes can hold any character, and is a list of code points. Whitespace
  is Python's on every code point; the case mappings are those of the ASCII letters.
\<close>

type_synonym path = string

text \<open>The exceptions the modelled code can meet. All of them are subclasses of
  Python's \<open>Exception\<close>; \<open>OperationalError\<close> is a subclass of \<open>DatabaseError\<close>, and
  the constructor \<open>DatabaseError\<close> stands for the database errors that are not
  operational errors. Each carries the text \<open>str(e)\<close> gives.\<close>

datatype pyexc =
    OperationalError string
  | DatabaseError string
  | AttributeError string
  | TypeError string

fun exc_text :: "pyexc \<Rightarrow> string" where
  "exc_text (OperationalError m) = m"
| "exc_text (DatabaseError m) = m"
| "exc_text (AttributeError m) = m"
| "exc_text (TypeError m) = m"

fun is_operational :: "pyexc \<Rightarrow> bool" where
  "is_operational (OperationalError m) = True"
| "is_operational e = False"

definition cp_isspace :: "nat \<Rightarrow> bool" where
  \<comment> \<open>\<open>str.isspace\<close> of the character with code point \<open>n\<close>: tab, LF, VT, FF, CR, the
      separators 0x1C..0x1F, space, NEL (U+0085), the no-break space (U+00A0), U+1680,
      U+2000..U+200A, U+2028, U+2029, U+202F, U+205F, U+3000\<close>
  "cp_isspace n =
     ((9 \<le> n \<and> n \<le> 13) \<or> (28 \<le> n \<and> n \<le> 32) \<or> n = 133 \<or> n = 160 \<or> n = 5760
      \<or> (8192 \<le> n \<and> n \<le> 8202) \<or> n = 8232 \<or> n = 8233 \<or> n = 8239 \<or> n = 8287 \<or> n = 12288)"

definition isspace :: "char \<Rightarrow> bool" where
  "isspace c = cp_isspace (of_char c)"

definition bytes_isspace :: "char \<Rightarrow> bool" where
  \<comment> \<open>what \<open>bytes.strip\<close> removes: space, tab, LF, CR, VT, FF\<close>
  "bytes_isspace c = (let n = (of_char c :: nat) in (9 \<le> n \<and> n \<le> 13) \<or> n = 32)"

definition strip :: "string \<Rightarrow> string" where
  "strip s = rev (dropWhile isspace (rev (dropWhile isspace s)))"

definition bytes_strip :: "string \<Rightarrow> string" where
  "bytes_strip s = rev (dropWhile bytes_isspace (rev (dropWhile bytes_isspace s)))"

definition cp_strip :: "nat list \<Rightarrow> nat list" where
  \<comment> \<open>\<open>str.strip\<close> on a text given by its code points\<close>
  "cp_strip s = rev (dropWhile cp_isspace (rev (dropWhile cp_isspace s)))"

definition startswith :: "'a list \<Rightarrow> 'a list \<Rightarrow> bool" where
  "startswith s p = (take (length p) s = p)"

definition lower_char :: "char \<Rightarrow> char" where
  "lower_char c = (let n = (of_char c :: nat) in if 65 \<le> n \<and> n \<le> 90 then char_of (n + 32) else c)"

definition upper_char :: "char \<Rightarrow> char" where
  "upper_char c = (let n = (of_char c :: nat) in if 97 \<le> n \<and> n \<le> 122 then char_of (n - 32) else c)"

definition lower :: "string \<Rightarrow> string" where
  "lower s = map lower_char s"

fun capitalize :: "string \<Rightarrow> string" where
  "capitalize [] = []"
| "capitalize (c # cs) = upper_char c # map lower_char cs"

fun contains :: "string \<Rightarrow> string \<Rightarrow> bool" where
  \<comment> \<open>\<open>sub in s\<close>\<close>
  "contains [] sub = (sub = [])"
| "contains (c # cs) sub = (startswith (c # cs) sub \<or> contains cs sub)"

fun digits_of_nat :: "nat \<Rightarrow> string" where
  \<comment> \<open>\<open>str(n)\<close> for a non-negative integer\<close>
  "digits_of_nat n =
     (if n < 10 then [char_of (48 + n)]
      else digits_of_nat (n div 10) @ [char_of (48 + n mod 10)])"

section \<open>UTF-8\<close>

text \<open>\<open>decode_bytes\<close> is Python's strict UTF-8 decoder on a list of byte values: it
  accepts the shortest-form encodings of the code points up to U+10FFFF without the
  surrogates, and gives the code points.\<close>

definition cont_byte :: "nat \<Rightarrow> bool" where
  "cont_byte b = (128 \<le> b \<and> b \<le> 191)"

fun decode_bytes :: "nat list \<Rightarrow> nat list option" where
  "decode_bytes [] = Some []"
| "decode_bytes (b # bs) =
     (if b < 128 then map_option ((#) b) (decode_bytes bs)
      else if 194 \<le> b \<and> b \<le> 223 then
        (case bs of
           b1 # r \<Rightarrow>
             if cont_byte b1
             then map_option ((#) ((b - 192) * 64 + (b1 - 128))) (decode_bytes r)
             else None
         | _ \<Rightarrow> None)
      else if 224 \<le> b \<and> b \<le> 239 then
        (case bs of
           b1 # b2 # r \<Rightarrow>
             if (if b = 224 then 160 \<le> b1 \<and> b1 \<le> 191
                 else if b = 237 then 128 \<le> b1 \<and> b1 \<le> 159
                 else cont_byte b1) \<and> cont_byte b2
             then map_option ((#) ((b - 224) * 4096 + (b1 - 128) * 64 + (b2 - 128)))
                    (decode_bytes r)
             else None
         | _ \<Rightarrow> None)
      else if 240 \<le> b \<and> b \<le> 244 then
        (case bs of
           b1 # b2 # b3 # r \<Rightarrow>
             if (if b = 240 then 144 \<le> b1 \<and> b1 \<le> 191
                 else if b = 244 then 128 \<le> b1 \<and> b1 \<le> 143
                 else cont_byte b1) \<and> cont_byte b2 \<and> cont_byte b3
             then map_option
                    ((#) ((b - 240) * 262144 + (b1 - 128) * 4096 + (b2 - 128) * 64 + (b3 - 128)))
                    (decode_bytes r)
             else None
         | _ \<Rightarrow> None)
      else None)"

definition decode_utf8 :: "string \<Rightarrow> nat list option" where
  \<comment> \<open>\<open>b.decode('utf-8')\<close>, as code points; \<open>None\<close> is \<open>UnicodeDecodeError\<close>\<close>
  "decode_utf8 b = decode_bytes (map of_char b)"

section \<open>The SQLite cookie databases\<close>

text \<open>
  A value Python's \<open>sqlite3\<close> hands back: \<open>None\<close> for NULL, an \<open>int\<close>, a \<open>str\<close> for
  TEXT, \<open>bytes\<close> for a BLOB. (REAL values are not modelled.)
\<close>

datatype sqlval = SNull | SInt int | SText string | SBlob string

type_synonym row = "(string \<times> sqlval) list"

record table =
  columns :: "string list"
  rows :: "row list"

text \<open>What \<open>connect\<close> finds at a path: a file it cannot open (missing, a directory,
  no permission: \<open>OperationalError\<close> with the given text), a file that is not an SQLite
  database (every statement raises \<open>DatabaseError\<close>), or a database with its tables in
  scan order.\<close>

datatype cookie_file =
    CannotOpen string
  | NotADatabase
  | Database "(string \<times> table) list"

text \<open>The WHERE clauses of the source's statements: comparisons of a column with a
  text literal, \<open>LIKE\<close> with a pattern, \<open>AND\<close>, \<open>OR\<close>.\<close>

datatype cond =
    Eq string string
  | Like string string
  | And cond cond
  | Or cond cond

datatype selexpr = Col string | CountAll

datatype query = Select selexpr string cond

fun like :: "string \<Rightarrow> string \<Rightarrow> bool" where
  \<comment> \<open>SQLite's \<open>LIKE\<close>: \<open>%\<close> any sequence, \<open>_\<close> any character, ASCII letters compared
      without case\<close>
  "like [] [] = True"
| "like [] (c # cs) = False"
| "like (p # ps) [] = (p = CHR ''%'' \<and> like ps [])"
| "like (p # ps) (c # cs) =
     (if p = CHR ''%'' then like ps (c # cs) \<or> like (p # ps) cs
      else if p = CHR ''_'' then like ps cs
      else lower_char p = lower_char c \<and> like ps cs)"

definition cell :: "row \<Rightarrow> string \<Rightarrow> sqlval" where
  "cell r c = (case map_of r c of None \<Rightarrow> SNull | Some v \<Rightarrow> v)"

fun holds :: "row \<Rightarrow> cond \<Rightarrow> bool" where
  \<comment> \<open>NULL counts as false: the clauses have no \<open>NOT\<close>. \<open>LIKE\<close> matches a BLOB by its
      bytes, as SQLite does unless it is built with \<open>SQLITE_LIKE_DOESNT_MATCH_BLOBS\<close>\<close>
  "holds r (Eq c lit) = (cell r c = SText lit)"
| "holds r (Like c pat) =
     (case cell r c of SText s \<Rightarrow> like pat s | SBlob s \<Rightarrow> like pat s | _ \<Rightarrow> False)"
| "holds r (And a b) = (holds r a \<and> holds r b)"
| "holds r (Or a b) = (holds r a \<or> holds r b)"

fun cond_columns :: "cond \<Rightarrow> string list" where
  "cond_columns (Eq c lit) = [c]"
| "cond_columns (Like c pat) = [c]"
| "cond_columns (And a b) = cond_columns a @ cond_columns b"
| "cond_columns (Or a b) = cond_columns a @ cond_columns b"

fun sel_columns :: "selexpr \<Rightarrow> string list" where
  "sel_columns (Col c) = [c]"
| "sel_columns CountAll = []"

fun sel_result :: "selexpr \<Rightarrow> row list \<Rightarrow> sqlval list" where
  "sel_result (Col c) rs = map (\<lambda>r. cell r c) rs"
| "sel_result CountAll rs = [SInt (int (length rs))]"

text \<open>\<open>conn.execute(q)\<close>: the selected expression of every result row, in scan order,
  or the exception raised.\<close>

fun execute :: "cookie_file \<Rightarrow> query \<Rightarrow> pyexc + sqlval list" where
  "execute (CannotOpen m) q = Inl (OperationalError m)"
| "execute NotADatabase q = Inl (DatabaseError ''file is not a database'')"
| "execute (Database tabs) (Select e t w) =
     (case map_of tabs t of
        None \<Rightarrow> Inl (OperationalError (''no such table: '' @ t))
      | Some tb \<Rightarrow>
          (case filter (\<lambda>c. c \<notin> set (columns tb)) (sel_columns e @ cond_columns w) of
             c # cs \<Rightarrow> Inl (OperationalError (''no such column: '' @ c))
           | [] \<Rightarrow> Inr (sel_result e (filter (\<lambda>r. holds r w) (rows tb)))))"

definition fetchone :: "sqlval list \<Rightarrow> sqlval option" where
  "fetchone rs = (case rs of [] \<Rightarrow> None | r # _ \<Rightarrow> Some r)"

fun truthy :: "sqlval \<Rightarrow> bool" where
  "truthy SNull = False"
| "truthy (SInt n) = (n \<noteq> 0)"
| "truthy (SText s) = (s \<noteq> [])"
| "truthy (SBlob s) = (s \<noteq> [])"

section \<open>The file system\<close>

record fs =
  system :: string  \<comment> \<open>\<open>platform.system()\<close>\<close>
  home :: string  \<comment> \<open>what \<open>expanduser\<close> puts for \<open>~\<close>\<close>
  scandir :: "path \<Rightarrow> string list"  \<comment> \<open>the names in a directory, in the OS's order\<close>
  isdir :: "path \<Rightarrow> bool"
  lexists :: "path \<Rightarrow> bool"  \<comment> \<open>true for a dangling symbolic link\<close>
  pexists :: "path \<Rightarrow> bool"  \<comment> \<open>\<open>os.path.exists\<close>: follows symbolic links\<close>
  sqlite :: "path \<Rightarrow> cookie_file"

definition connect :: "fs \<Rightarrow> path \<Rightarrow> pyexc + cookie_file" where
  \<comment> \<open>\<open>connect(f"file:{cookiefile}?immutable=1", uri=True)\<close>\<close>
  "connect s p = (case sqlite s p of CannotOpen m \<Rightarrow> Inl (OperationalError m) | c \<Rightarrow> Inr c)"

section \<open>Probing a cookie file\<close>

fun count_positive :: "sqlval option \<Rightarrow> pyexc + bool" where
  \<comment> \<open>\<open>result and result[0] > 0\<close>\<close>
  "count_positive None = Inr False"
| "count_positive (Some (SInt n)) = Inr (0 < n)"
| "count_positive (Some v) = Inl (TypeError ''> not supported'')"

definition any_rows :: "cookie_file \<Rightarrow> cond \<Rightarrow> string \<Rightarrow> pyexc + bool" where
  "any_rows conn w t =
     (case execute conn (Select CountAll t w) of
        Inl e \<Rightarrow> Inl e
      | Inr rs \<Rightarrow> count_positive (fetchone rs))"

definition either_rows :: "cookie_file \<Rightarrow> string \<Rightarrow> cond \<Rightarrow> cond \<Rightarrow> pyexc + bool" where
  \<comment> \<open>two count statements in a row, \<open>return True\<close> at the first positive count\<close>
  "either_rows conn t w1 w2 =
     (case any_rows conn w1 t of
        Inl e \<Rightarrow> Inl e
      | Inr True \<Rightarrow> Inr True
      | Inr False \<Rightarrow> any_rows conn w2 t)"

definition name_is_token :: cond where
  "name_is_token = Or (Eq ''name'' ''msToken'') (Eq ''name'' ''ms_token'')"

definition base_domain_tiktok :: cond where
  "base_domain_tiktok = Or (Eq ''baseDomain'' ''tiktok.com'') (Eq ''baseDomain'' ''.tiktok.com'')"

definition has_tiktok_cookies_body :: "fs \<Rightarrow> path \<Rightarrow> bool \<Rightarrow> pyexc + bool" where
  "has_tiktok_cookies_body s cookiefile is_firefox =
     (case connect s cookiefile of
        Inl e \<Rightarrow> Inl e
      | Inr conn \<Rightarrow>
          if is_firefox then
            (case either_rows conn ''moz_cookies''
                    (And name_is_token base_domain_tiktok) base_domain_tiktok of
               Inl e \<Rightarrow>
                 if is_operational e then
                   either_rows conn ''moz_cookies''
                     (And name_is_token (Like ''host'' ''%tiktok.com''))
                     (Like ''host'' ''%tiktok.com'')
                 else Inl e
             | Inr b \<Rightarrow> Inr b)
          else
            either_rows conn ''cookies''
              (And name_is_token (Like ''host_key'' ''%tiktok.com''))
              (Like ''host_key'' ''%tiktok.com''))"

definition has_tiktok_cookies :: "fs \<Rightarrow> path \<Rightarrow> bool \<Rightarrow> bool" where
  \<comment> \<open>\<open>except Exception: pass\<close>, then \<open>return False\<close>\<close>
  "has_tiktok_cookies s cookiefile is_firefox =
     (case has_tiktok_cookies_body s cookiefile is_firefox of
        Inl e \<Rightarrow> False
      | Inr b \<Rightarrow> b)"

section \<open>Enumerating candidate cookie files\<close>

text \<open>
  \<open>fnmatch\<close>: a pattern is read into tokens the way \<open>fnmatch.translate\<close> reads it
  (\<open>*\<close>, \<open>?\<close>, a bracket expression closed by the first \<open>]\<close> after its first
  character, every other character literal), and a name is matched against the tokens.
\<close>

datatype glob_tok = GLit char | GStar | GAny | GClass string

fun find_close :: "string \<Rightarrow> nat \<Rightarrow> nat option" where
  "find_close [] k = None"
| "find_close (c # cs) k = (if c = CHR '']'' then Some k else find_close cs (Suc k))"

definition class_end :: "string \<Rightarrow> nat option" where
  \<comment> \<open>the index of the closing bracket in the text after \<open>[\<close>\<close>
  "class_end cs =
     (let j0 = (case cs of c # r \<Rightarrow> if c = CHR ''!'' then 1 else 0 | [] \<Rightarrow> 0);
          j1 = (case drop j0 cs of c # r \<Rightarrow> if c = CHR '']'' then Suc j0 else j0 | [] \<Rightarrow> j0)
      in find_close (drop j1 cs) j1)"

fun tokens :: "string \<Rightarrow> glob_tok list" where
  "tokens [] = []"
| "tokens (c # cs) =
     (if c = CHR ''*'' then GStar # tokens cs
      else if c = CHR ''?'' then GAny # tokens cs
      else if c = CHR ''['' then
        (case class_end cs of
           None \<Rightarrow> GLit c # tokens cs
         | Some j \<Rightarrow> GClass (take j cs) # tokens (drop (Suc j) cs))
      else GLit c # tokens cs)"

fun in_items :: "string \<Rightarrow> char \<Rightarrow> bool" where
  "in_items (a # m # b # r) c =
     (if m = CHR ''-'' then ((of_char a :: nat) \<le> of_char c \<and> (of_char c :: nat) \<le> of_char b) \<or> in_items r c
      else a = c \<or> in_items (m # b # r) c)"
| "in_items (a # r) c = (a = c \<or> in_items r c)"
| "in_items [] c = False"

definition in_class :: "string \<Rightarrow> char \<Rightarrow> bool" where
  "in_class body c =
     (case body of
        b # r \<Rightarrow> if b = CHR ''!'' then \<not> in_items r c else in_items body c
      | [] \<Rightarrow> False)"

fun matches :: "glob_tok list \<Rightarrow> string \<Rightarrow> bool" where
  "matches [] n = (n = [])"
| "matches (GStar # ts) [] = matches ts []"
| "matches (GStar # ts) (c # cs) = (matches ts (c # cs) \<or> matches (GStar # ts) cs)"
| "matches (t # ts) [] = False"
| "matches (GLit p # ts) (c # cs) = (p = c \<and> matches ts cs)"
| "matches (GAny # ts) (c # cs) = matches ts cs"
| "matches (GClass b # ts) (c # cs) = (in_class b c \<and> matches ts cs)"

definition sep :: "fs \<Rightarrow> char" where
  "sep s = (if system s = ''Windows'' then CHR 0x5C else CHR ''/'')"

definition normcase :: "fs \<Rightarrow> string \<Rightarrow> string" where
  "normcase s n =
     (if system s = ''Windows'' then map (\<lambda>c. if c = CHR ''/'' then CHR 0x5C else lower_char c) n
      else n)"

definition fnmatch :: "fs \<Rightarrow> string \<Rightarrow> string \<Rightarrow> bool" where
  "fnmatch s n pat = matches (tokens (normcase s pat)) (normcase s n)"

definition join :: "fs \<Rightarrow> path \<Rightarrow> string \<Rightarrow> path" where
  \<comment> \<open>\<open>os.path.join\<close> of a directory and a name in it\<close>
  "join s a b =
     (if a = [] then b
      else if last a = CHR ''/'' \<or> last a = sep s then a @ b
      else a @ [sep s] @ b)"

definition expanduser :: "fs \<Rightarrow> path \<Rightarrow> path" where
  "expanduser s p = (if startswith p ''~/'' then home s @ drop 1 p else p)"

definition is_hidden :: "string \<Rightarrow> bool" where
  "is_hidden n = startswith n ''.''"

text \<open>
  \<open>glob\<close> of the pattern \<open>base/pat/leaf\<close>, where only \<open>pat\<close> has wildcards (every
  pattern of the source has this shape; \<open>home\<close> is taken to hold no wildcard): the
  directories of \<open>base\<close> whose names match \<open>pat\<close>, in directory order, that hold an
  entry \<open>leaf\<close>.
\<close>

definition glob1 :: "fs \<Rightarrow> path \<Rightarrow> string \<Rightarrow> string list" where
  "glob1 s dir pat =
     filter (\<lambda>n. fnmatch s n pat)
       (filter (\<lambda>n. is_hidden pat \<or> \<not> is_hidden n)
          (filter (\<lambda>n. isdir s (join s dir n)) (scandir s dir)))"

definition glob :: "fs \<Rightarrow> path \<Rightarrow> string \<Rightarrow> string \<Rightarrow> path list" where
  "glob s base pat leaf =
     filter (lexists s) (map (\<lambda>d. join s (join s base d) leaf) (glob1 s base pat))"

definition firefox_patterns :: "fs \<Rightarrow> (path \<times> string \<times> string) list" where
  "firefox_patterns s =
     (if system s = ''Windows'' then
        [(''~/AppData/Roaming/Mozilla/Firefox/Profiles'', ''*'', ''cookies.sqlite''),
         (''~/AppData/Roaming/Mozilla/Firefox Developer Edition/Profiles'', ''*'', ''cookies.sqlite'')]
      else if system s = ''Darwin'' then
        [(''~/Library/Application Support/Firefox/Profiles'', ''*'', ''cookies.sqlite''),
         (''~/Library/Application Support/Firefox Developer Edition/Profiles'', ''*'', ''cookies.sqlite'')]
      else
        [(''~/.mozilla/firefox'', ''*'', ''cookies.sqlite''),
         (''~/.mozilla/firefox-developer-edition'', ''*'', ''cookies.sqlite'')])"

fun rank_firefox :: "fs \<Rightarrow> path list \<Rightarrow> path list \<Rightarrow> path list \<Rightarrow> path list" where
  \<comment> \<open>the loop over \<open>all_cookiefiles\<close>, then \<open>return prioritized + others\<close>\<close>
  "rank_firefox s [] prioritized others = prioritized @ others"
| "rank_firefox s (cookiefile # rest) prioritized others =
     (if has_tiktok_cookies s cookiefile True
      then rank_firefox s rest (prioritized @ [cookiefile]) others
      else rank_firefox s rest prioritized (others @ [cookiefile]))"

definition get_firefox_cookie_files :: "fs \<Rightarrow> path list" where
  "get_firefox_cookie_files s =
     (let all_cookiefiles =
            concat (map (\<lambda>(base, pat, leaf). glob s (expanduser s base) pat leaf)
                      (firefox_patterns s))
      in if all_cookiefiles = [] then [] else rank_firefox s all_cookiefiles [] [])"

fun rank_chrome_edge :: "fs \<Rightarrow> path list \<Rightarrow> path list \<Rightarrow> path list \<Rightarrow> path list" where
  \<comment> \<open>the loop over \<open>cookie_files\<close> of the Chrome and the Edge function\<close>
  "rank_chrome_edge s [] prioritized others = prioritized @ others"
| "rank_chrome_edge s (cookiefile # rest) prioritized others =
     (if pexists s cookiefile \<and> has_tiktok_cookies s cookiefile False
      then rank_chrome_edge s rest (prioritized @ [cookiefile]) others
      else if pexists s cookiefile
      then rank_chrome_edge s rest prioritized (others @ [cookiefile])
      else rank_chrome_edge s rest prioritized others)"

definition profile_cookie_files :: "fs \<Rightarrow> path \<Rightarrow> path list" where
  \<comment> \<open>the body of the loop over \<open>base_paths\<close>, the same in both functions\<close>
  "profile_cookie_files s base_path =
     (if \<not> pexists s (expanduser s base_path) then []
      else
        (let default_cookies = expanduser s (base_path @ ''/Default/Cookies'')
         in (if pexists s default_cookies then [default_cookies] else [])
            @ glob s (expanduser s base_path) ''Profile *'' ''Cookies''
            @ glob s (expanduser s base_path) ''Profile [0-9]*'' ''Cookies''))"

definition chrome_base_paths :: "fs \<Rightarrow> path list" where
  "chrome_base_paths s =
     (if system s = ''Windows'' then [''~/AppData/Local/Google/Chrome/User Data'']
      else if system s = ''Darwin'' then [''~/Library/Application Support/Google/Chrome'']
      else [''~/.config/google-chrome''])"

definition edge_base_paths :: "fs \<Rightarrow> path list" where
  "edge_base_paths s =
     (if system s = ''Windows'' then [''~/AppData/Local/Microsoft/Edge/User Data'']
      else if system s = ''Darwin'' then [''~/Library/Application Support/Microsoft Edge'']
      else [''~/.config/microsoft-edge''])"

definition chrome_candidates :: "fs \<Rightarrow> path list" where
  "chrome_candidates s = concat (map (profile_cookie_files s) (chrome_base_paths s))"

definition edge_candidates :: "fs \<Rightarrow> path list" where
  "edge_candidates s = concat (map (profile_cookie_files s) (edge_base_paths s))"

definition get_chrome_cookie_files :: "fs \<Rightarrow> path list" where
  "get_chrome_cookie_files s = rank_chrome_edge s (chrome_candidates s) [] []"

definition get_edge_cookie_files :: "fs \<Rightarrow> path list" where
  "get_edge_cookie_files s = rank_chrome_edge s (edge_candidates s) [] []"

section \<open>Extracting the token from one cookie file\<close>

text \<open>What an extraction function returns: a \<open>str\<close>, or (from a BLOB column read by
  the Firefox function) a \<open>bytes\<close> object. A \<open>str\<close> is \<open>Str\<close> of its characters when they
  all lie below U+0100, and \<open>Wide\<close> of its code points otherwise (such a text can only
  come from the bytes of a BLOB). Printed lines are returned as a list, in the order
  they are printed.\<close>

datatype token = Str string | Bytes string | Wide "nat list"

fun token_truthy :: "token \<Rightarrow> bool" where
  "token_truthy (Str t) = (t \<noteq> [])"
| "token_truthy (Bytes b) = (b \<noteq> [])"
| "token_truthy (Wide t) = (t \<noteq> [])"

definition text_of :: "nat list \<Rightarrow> token" where
  \<comment> \<open>the \<open>str\<close> with the given code points\<close>
  "text_of cps = (if list_all (\<lambda>n. n < 256) cps then Str (map char_of cps) else Wide cps)"

definition YELLOW :: string where "YELLOW = ''[!]''"
definition GREEN :: string where "GREEN = ''[OK]''"
definition RED :: string where "RED = ''[X]''"
definition CYAN :: string where "CYAN = ''[*]''"

definition firefox_queries :: "string \<Rightarrow> query list" where
  "firefox_queries cookie_name =
     [Select (Col ''value'') ''moz_cookies''
        (And (Eq ''name'' cookie_name)
             (Or (Eq ''baseDomain'' ''tiktok.com'') (Eq ''baseDomain'' ''.tiktok.com''))),
      Select (Col ''value'') ''moz_cookies''
        (And (Eq ''name'' cookie_name)
             (Or (Eq ''host'' ''tiktok.com'')
                 (Or (Eq ''host'' ''.tiktok.com'')
                     (Or (Eq ''host'' ''www.tiktok.com'') (Like ''host'' ''%.tiktok.com''))))),
      Select (Col ''value'') ''moz_cookies''
        (And (Eq ''name'' cookie_name) (Like ''host'' ''%tiktok%''))]"

fun firefox_value :: "sqlval \<Rightarrow> pyexc + token option" where
  \<comment> \<open>\<open>len(token_value.strip()) > 0\<close>, then \<open>return token_value.strip()\<close>\<close>
  "firefox_value (SText t) = (if strip t \<noteq> [] then Inr (Some (Str (strip t))) else Inr None)"
| "firefox_value (SBlob b) =
     (if bytes_strip b \<noteq> [] then Inr (Some (Bytes (bytes_strip b))) else Inr None)"
| "firefox_value (SInt n) = Inl (AttributeError ''int object has no attribute strip'')"
| "firefox_value SNull = Inr None"

definition firefox_step :: "cookie_file \<Rightarrow> query \<Rightarrow> pyexc + token option" where
  \<comment> \<open>one turn of the loop over \<open>queries\<close>: \<open>Inr (Some t)\<close> returns \<open>t\<close>, \<open>Inr None\<close>
      goes on to the next statement, \<open>Inl e\<close> leaves the loops with the exception\<close>
  "firefox_step conn q =
     (case execute conn q of
        Inl e \<Rightarrow> if is_operational e then Inr None else Inl e
      | Inr rs \<Rightarrow>
          (case fetchone rs of
             None \<Rightarrow> Inr None
           | Some v \<Rightarrow> if truthy v then firefox_value v else Inr None))"

fun firefox_queries_loop :: "cookie_file \<Rightarrow> query list \<Rightarrow> pyexc + token option" where
  "firefox_queries_loop conn [] = Inr None"
| "firefox_queries_loop conn (q # qs) =
     (case firefox_step conn q of
        Inl e \<Rightarrow> Inl e
      | Inr (Some t) \<Rightarrow> Inr (Some t)
      | Inr None \<Rightarrow> firefox_queries_loop conn qs)"

fun firefox_names_loop :: "cookie_file \<Rightarrow> string list \<Rightarrow> pyexc + token option" where
  "firefox_names_loop conn [] = Inr None"
| "firefox_names_loop conn (cookie_name # names) =
     (case firefox_queries_loop conn (firefox_queries cookie_name) of
        Inl e \<Rightarrow> Inl e
      | Inr (Some t) \<Rightarrow> Inr (Some t)
      | Inr None \<Rightarrow> firefox_names_loop conn names)"

definition firefox_hint :: "fs \<Rightarrow> path \<Rightarrow> string list" where
  \<comment> \<open>the second \<open>try\<close> block: count the TikTok cookies for a better message\<close>
  "firefox_hint s cookiefile =
     (case connect s cookiefile of
        Inl e \<Rightarrow> []
      | Inr conn \<Rightarrow>
          (case (case execute conn (Select CountAll ''moz_cookies'' (Like ''host'' ''%tiktok.com'')) of
                   Inl e \<Rightarrow>
                     if is_operational e
                     then execute conn (Select CountAll ''moz_cookies'' (Like ''host'' ''%tiktok%''))
                     else Inl e
                 | Inr rs \<Rightarrow> Inr rs) of
             Inl e \<Rightarrow> []
           | Inr rs \<Rightarrow>
               (case fetchone rs of
                  Some (SInt n) \<Rightarrow>
                    if 0 < n then
                      [YELLOW @ '' Found '' @ digits_of_nat (nat n)
                         @ '' TikTok cookies but no msToken/ms_token cookie'',
                       YELLOW @ '' Tip: Visit https://www.tiktok.com in Firefox and browse for a moment to generate the msToken cookie'']
                    else []
                | _ \<Rightarrow> [])))"

definition extract_ms_token_from_firefox :: "fs \<Rightarrow> path \<Rightarrow> string list \<times> token option" where
  "extract_ms_token_from_firefox s cookiefile =
     (case (case connect s cookiefile of
              Inl e \<Rightarrow> Inl e
            | Inr conn \<Rightarrow> firefox_names_loop conn [''msToken'', ''ms_token'']) of
        Inl e \<Rightarrow>
          ([YELLOW @ '' Warning: Could not extract from Firefox '' @ cookiefile @ '': '' @ exc_text e],
           None)
      | Inr (Some t) \<Rightarrow> ([], Some t)
      | Inr None \<Rightarrow> (firefox_hint s cookiefile, None))"

definition chrome_queries :: "string \<Rightarrow> query list" where
  "chrome_queries cookie_name =
     [Select (Col ''value'') ''cookies''
        (And (Eq ''name'' cookie_name) (Like ''host_key'' ''%tiktok.com'')),
      Select (Col ''value'') ''cookies''
        (And (Eq ''name'' cookie_name) (Like ''host_key'' ''%.tiktok.com'')),
      Select (Col ''value'') ''cookies''
        (And (Eq ''name'' cookie_name) (Eq ''host_key'' ''www.tiktok.com'')),
      Select (Col ''value'') ''cookies''
        (And (Eq ''name'' cookie_name) (Like ''host_key'' ''%tiktok%''))]"

definition encrypted_warning :: "path \<Rightarrow> string list" where
  "encrypted_warning cookiefile =
     [YELLOW @ '' Warning: Cookie value appears encrypted in '' @ cookiefile,
      YELLOW @ '' Tip: Close Chrome/Edge and try again, or use Firefox for automatic extraction'']"

fun chrome_value :: "path \<Rightarrow> sqlval \<Rightarrow> string list \<times> token option" where
  \<comment> \<open>the \<open>isinstance\<close> chain on a truthy \<open>cookie_value\<close>: the printed lines, and the
      value returned if any\<close>
  "chrome_value cookiefile (SBlob b) =
     (case decode_utf8 b of
        Some decoded \<Rightarrow>
          if decoded \<noteq> [] \<and> cp_strip decoded \<noteq> []
             \<and> \<not> startswith decoded (map of_char ''v1'')
          then ([], Some (text_of (cp_strip decoded)))
          else (encrypted_warning cookiefile, None)
      | None \<Rightarrow> (encrypted_warning cookiefile, None))"
| "chrome_value cookiefile (SText t) =
     (if t \<noteq> [] \<and> strip t \<noteq> [] \<and> \<not> startswith t ''v1''
      then ([], Some (Str (strip t)))
      else ([], None))"
| "chrome_value cookiefile (SInt n) = ([], None)"
| "chrome_value cookiefile SNull = ([], None)"

definition chrome_step :: "cookie_file \<Rightarrow> path \<Rightarrow> query \<Rightarrow> string list \<times> token option" where
  \<comment> \<open>one turn of the loop over \<open>queries\<close>; both \<open>except\<close> clauses \<open>continue\<close>\<close>
  "chrome_step conn cookiefile q =
     (case execute conn q of
        Inl e \<Rightarrow> ([], None)
      | Inr rs \<Rightarrow>
          (case fetchone rs of
             None \<Rightarrow> ([], None)
           | Some v \<Rightarrow> if truthy v then chrome_value cookiefile v else ([], None)))"

fun chrome_queries_loop ::
  "cookie_file \<Rightarrow> path \<Rightarrow> query list \<Rightarrow> string list \<times> token option" where
  "chrome_queries_loop conn cookiefile [] = ([], None)"
| "chrome_queries_loop conn cookiefile (q # qs) =
     (case chrome_step conn cookiefile q of
        (out, Some t) \<Rightarrow> (out, Some t)
      | (out, None) \<Rightarrow>
          (case chrome_queries_loop conn cookiefile qs of (out', r) \<Rightarrow> (out @ out', r)))"

fun chrome_names_loop ::
  "cookie_file \<Rightarrow> path \<Rightarrow> string list \<Rightarrow> string list \<times> token option" where
  "chrome_names_loop conn cookiefile [] = ([], None)"
| "chrome_names_loop conn cookiefile (cookie_name # names) =
     (case chrome_queries_loop conn cookiefile (chrome_queries cookie_name) of
        (out, Some t) \<Rightarrow> (out, Some t)
      | (out, None) \<Rightarrow>
          (case chrome_names_loop conn cookiefile names of (out', r) \<Rightarrow> (out @ out', r)))"

definition extract_ms_token_from_chrome_edge :: "fs \<Rightarrow> path \<Rightarrow> string list \<times> token option" where
  "extract_ms_token_from_chrome_edge s cookiefile =
     (case connect s cookiefile of
        Inl e \<Rightarrow>
          (if is_operational e then
             (if contains (lower (exc_text e)) ''database is locked'' then
                [YELLOW @ '' Warning: '' @ cookiefile @ '' is locked (browser may be running)'',
                 YELLOW @ '' Tip: Close Chrome/Edge and try again, or use Firefox'']
              else [YELLOW @ '' Warning: Could not read '' @ cookiefile @ '': '' @ exc_text e])
           else [YELLOW @ '' Warning: Could not extract from '' @ cookiefile @ '': '' @ exc_text e],
           None)
      | Inr conn \<Rightarrow>
          chrome_names_loop conn cookiefile [''msToken'', ''ms_token''])"

section \<open>Searching the browsers\<close>

definition browsers_to_try :: "string option \<Rightarrow> string list" where
  "browsers_to_try preferred_browser =
     (case preferred_browser of
        None \<Rightarrow> [''firefox'', ''chrome'', ''edge'']
      | Some b \<Rightarrow>
          if b = [] then [''firefox'', ''chrome'', ''edge'']
          else if lower b = ''firefox'' then [''firefox'']
          else if lower b = ''chrome'' then [''chrome'']
          else if lower b = ''edge'' then [''edge'']
          else [])"

fun check_files ::
  "(path \<Rightarrow> string list \<times> token option) \<Rightarrow> string \<Rightarrow> path list \<Rightarrow> string list \<times> token option"
where
  \<comment> \<open>the loop over \<open>cookie_files\<close>; \<open>Some t\<close> is \<open>return ms_token\<close>\<close>
  "check_files extractor label [] = ([], None)"
| "check_files extractor label (cookiefile # rest) =
     (case extractor cookiefile of
        (out, r) \<Rightarrow>
          (case (case r of Some t \<Rightarrow> token_truthy t | None \<Rightarrow> False) of
             True \<Rightarrow>
               ((CYAN @ '' Checking '' @ cookiefile @ ''...'') # out
                  @ [GREEN @ '' Found ms_token in '' @ label @ '': '' @ cookiefile],
                r)
           | False \<Rightarrow>
               (case check_files extractor label rest of
                  (out', r') \<Rightarrow> ((CYAN @ '' Checking '' @ cookiefile @ ''...'') # out @ out', r'))))"

definition search_files ::
  "string \<Rightarrow> string \<Rightarrow> (path \<Rightarrow> string list \<times> token option) \<Rightarrow> path list
     \<Rightarrow> string list \<times> token option" where
  \<comment> \<open>one branch of the loop body: \<open>trying\<close> is the line printed before it\<close>
  "search_files trying label extractor cookie_files =
     (if cookie_files = [] then
        ([trying, YELLOW @ '' No '' @ label @ '' cookie files found''], None)
      else
        (case check_files extractor label cookie_files of
           (out, r) \<Rightarrow>
             (trying # (CYAN @ '' Found '' @ digits_of_nat (length cookie_files)
                          @ '' '' @ label @ '' profile(s)'') # out, r)))"

definition try_browser :: "fs \<Rightarrow> string \<Rightarrow> string list \<times> token option" where
  \<comment> \<open>the body of the loop over \<open>browsers_to_try\<close>\<close>
  "try_browser s browser =
     (let trying = CYAN @ '' Trying '' @ capitalize browser @ ''...''
      in if browser = ''firefox'' then
           search_files trying ''Firefox'' (extract_ms_token_from_firefox s)
             (get_firefox_cookie_files s)
         else if browser = ''chrome'' then
           search_files trying ''Chrome'' (extract_ms_token_from_chrome_edge s)
             (get_chrome_cookie_files s)
         else if browser = ''edge'' then
           search_files trying ''Edge'' (extract_ms_token_from_chrome_edge s)
             (get_edge_cookie_files s)
         else ([trying], None))"

fun browsers_loop :: "fs \<Rightarrow> string list \<Rightarrow> string list \<times> token option" where
  "browsers_loop s [] = ([], None)"
| "browsers_loop s (browser # rest) =
     (case try_browser s browser of
        (out, Some t) \<Rightarrow> (out, Some t)
      | (out, None) \<Rightarrow>
          (case browsers_loop s rest of (out', r) \<Rightarrow> (out @ out', r)))"

definition extract_ms_token :: "fs \<Rightarrow> string option \<Rightarrow> string list \<times> token option" where
  "extract_ms_token s preferred_browser = browsers_loop s (browsers_to_try preferred_browser)"

section \<open>The locator's command line\<close>

text \<open>
  The arguments as \<open>parse_args\<close> leaves them. What can cut the \<open>try\<close> block short is a
  parameter of the run: nothing, a \<open>KeyboardInterrupt\<close>, or an exception raised at the
  top level (by \<open>print\<close>, say). Writing the token file succeeds or raises, as the
  parameter \<open>write_fails\<close> says for the path.
\<close>

record locator_args =
  arg_browser :: "string option"
  arg_output :: path
  arg_stdout :: bool

datatype disturbance = Undisturbed | KeyboardInterrupt | Raised pyexc

definition save_ms_token ::
  "(path \<Rightarrow> pyexc option) \<Rightarrow> token \<Rightarrow> path \<Rightarrow> string list \<times> bool" where
  "save_ms_token write_fails t output_file =
     (case (case write_fails output_file of
              Some e \<Rightarrow> Inl e
            | None \<Rightarrow>
                (case t of
                   Str v \<Rightarrow> Inr (Str (strip v))
                 | Wide v \<Rightarrow> Inr (text_of (cp_strip v))
                 | Bytes b \<Rightarrow> Inl (TypeError ''write() argument must be str, not bytes''))) of
        Inl e \<Rightarrow>
          ([RED @ '' Error saving ms_token to '' @ output_file @ '': '' @ exc_text e], False)
      | Inr written \<Rightarrow> ([GREEN @ '' ms_token saved to: '' @ output_file], True))"

definition not_found_lines :: "string list" where
  "not_found_lines =
     [RED @ '' Error: Could not find ms_token in any browser'',
      YELLOW @ '' Make sure you are logged into TikTok in your browser'',
      YELLOW @ '' If using Chrome/Edge, try closing the browser first'',
      YELLOW @ '' Or use Firefox for easier automatic extraction'']"

datatype printed = Line string | Shown token

definition locator_main ::
  "fs \<Rightarrow> (path \<Rightarrow> pyexc option) \<Rightarrow> disturbance \<Rightarrow> locator_args \<Rightarrow> printed list \<times> int" where
  \<comment> \<open>the \<open>try\<close> block under \<open>__main__\<close>: what is printed and the exit status (after a
      disturbance, only the handler's line); \<open>Shown t\<close> is \<open>print(t)\<close>\<close>
  "locator_main s write_fails d args =
     (case d of
        KeyboardInterrupt \<Rightarrow> ([Line (YELLOW @ '' Interrupted by user'')], 1)
      | Raised e \<Rightarrow> ([Line (RED @ '' Error: '' @ exc_text e)], 1)
      | Undisturbed \<Rightarrow>
          (case extract_ms_token s (arg_browser args) of
             (out, None) \<Rightarrow>
               (map Line
                  ((CYAN @ '' Extracting ms_token from browser cookies...'') # out
                     @ not_found_lines),
                1)
           | (out, Some ms_token) \<Rightarrow>
               if token_truthy ms_token then
                 (map Line ((CYAN @ '' Extracting ms_token from browser cookies...'') # out)
                    @ (if arg_stdout args
                       then [Shown ms_token]
                       else map Line (fst (save_ms_token write_fails ms_token (arg_output args)))),
                  0)
               else
                 (map Line
                    ((CYAN @ '' Extracting ms_token from browser cookies...'') # out
                       @ not_found_lines),
                  1)))"

section \<open>The scraper: remote data and its environment\<close>

text \<open>
  The data the client library hands back is JSON: a profile, a video or a comment is a
  dictionary from field names to values (numbers are integers here). The library, the
  clock and the output files are the environment of a run, a record of functions. A
  remote sequence yields items until it ends or raises.
\<close>

datatype json =
    JNull
  | JBool bool
  | JNum int
  | JStr string
  | JArr "json list"
  | JObj "(string \<times> json) list"

type_synonym dict = "(string \<times> json) list"

datatype 'a stream = End | Fails pyexc | Item 'a "'a stream"

datatype video_ref = ByUrl string | ById string

record remote =
  create_sessions :: "string \<Rightarrow> pyexc option"
  user_info :: "string \<Rightarrow> pyexc + dict"
  user_videos :: "string \<Rightarrow> int \<Rightarrow> dict stream"
  trending_videos :: "int \<Rightarrow> dict stream"
  hashtag_videos :: "string \<Rightarrow> int \<Rightarrow> dict stream"
  video_info :: "video_ref \<Rightarrow> pyexc + dict"
  video_comments :: "video_ref \<Rightarrow> int option \<Rightarrow> dict stream"
  now_iso :: string  \<comment> \<open>\<open>datetime.now().isoformat()\<close>\<close>
  now_stamp :: string  \<comment> \<open>\<open>datetime.now().strftime('%Y%m%d_%H%M%S')\<close>\<close>
  open_fails :: "path \<Rightarrow> pyexc option"  \<comment> \<open>opening a file for writing\<close>
  token_file :: "path \<Rightarrow> (pyexc + string) option"
    \<comment> \<open>\<open>None\<close>: no such path; else reading it raises or gives its text\<close>

datatype file_content = JsonFile json | CsvFile "json list list"

text \<open>What a run does, in order. The progress lines on standard output are left out;
  the error lines are kept.\<close>

datatype event =
    CreateSessions string
  | FetchUserInfo string
  | FetchUserVideos string int
  | FetchTrending int
  | FetchHashtagVideos string int
  | FetchVideoInfo video_ref
  | FetchComments video_ref "int option"
  | ReadFile path
  | WriteFile path file_content
  | Print string
  | Stderr string

definition dict_get :: "dict \<Rightarrow> string \<Rightarrow> json \<Rightarrow> json" where
  \<comment> \<open>\<open>d.get(k, default)\<close> on a dictionary\<close>
  "dict_get d k dflt = (case map_of d k of Some v \<Rightarrow> v | None \<Rightarrow> dflt)"

fun py_get :: "json \<Rightarrow> string \<Rightarrow> json \<Rightarrow> pyexc + json" where
  \<comment> \<open>\<open>x.get(k, default)\<close> on any value: only a dictionary has \<open>get\<close>\<close>
  "py_get (JObj d) k dflt = Inr (dict_get d k dflt)"
| "py_get x k dflt = Inl (AttributeError ''object has no attribute get'')"

fun slice_to :: "nat \<Rightarrow> json \<Rightarrow> pyexc + json" where
  \<comment> \<open>\<open>x[:n]\<close>\<close>
  "slice_to n (JStr t) = Inr (JStr (take n t))"
| "slice_to n (JArr xs) = Inr (JArr (take n xs))"
| "slice_to n x = Inl (TypeError ''object is not subscriptable'')"

definition sub_get :: "dict \<Rightarrow> string \<Rightarrow> string \<Rightarrow> pyexc + json" where
  \<comment> \<open>\<open>d.get(outer, {}).get(inner, '')\<close>\<close>
  "sub_get d outer inner = py_get (dict_get d outer (JObj [])) inner (JStr [])"

definition count_or :: "int option \<Rightarrow> int \<Rightarrow> int" where
  \<comment> \<open>\<open>limit if limit else default\<close>\<close>
  "count_or limit dflt = (case limit of None \<Rightarrow> dflt | Some l \<Rightarrow> if l \<noteq> 0 then l else dflt)"

fun collect :: "int option \<Rightarrow> dict stream \<Rightarrow> dict list \<Rightarrow> int \<Rightarrow> pyexc + dict list" where
  \<comment> \<open>the \<open>async for\<close> loop of the three video scrapers, with its \<open>break\<close>\<close>
  "collect limit End videos video_count = Inr videos"
| "collect limit (Fails e) videos video_count = Inl e"
| "collect limit (Item video rest) videos video_count =
     (case limit of
        None \<Rightarrow> collect limit rest (videos @ [video]) (video_count + 1)
      | Some l \<Rightarrow>
          if l \<noteq> 0 \<and> l \<le> video_count + 1 then Inr (videos @ [video])
          else collect limit rest (videos @ [video]) (video_count + 1))"

fun collect_all :: "dict stream \<Rightarrow> dict list \<Rightarrow> pyexc + dict list" where
  \<comment> \<open>the \<open>async for\<close> loop over the comments: no \<open>break\<close>\<close>
  "collect_all End comments = Inr comments"
| "collect_all (Fails e) comments = Inl e"
| "collect_all (Item comment rest) comments = collect_all rest (comments @ [comment])"

fun write_rows :: "(dict \<Rightarrow> pyexc + json list) \<Rightarrow> dict list \<Rightarrow> json list list \<times> pyexc option" where
  \<comment> \<open>one \<open>writerow\<close> per item: the rows written, and the exception that stopped the
      loop if one did\<close>
  "write_rows mk [] = ([], None)"
| "write_rows mk (x # xs) =
     (case mk x of
        Inl e \<Rightarrow> ([], Some e)
      | Inr r \<Rightarrow> (case write_rows mk xs of (rs, e) \<Rightarrow> (r # rs, e)))"

definition user_video_row :: "dict \<Rightarrow> pyexc + json list" where
  "user_video_row video =
     (case slice_to 100 (dict_get video ''desc'' (JStr [])) of
        Inl e \<Rightarrow> Inl e
      | Inr d \<Rightarrow>
     (case sub_get video ''stats'' ''diggCount'' of Inl e \<Rightarrow> Inl e | Inr likes \<Rightarrow>
     (case sub_get video ''stats'' ''shareCount'' of Inl e \<Rightarrow> Inl e | Inr shares \<Rightarrow>
     (case sub_get video ''stats'' ''commentCount'' of Inl e \<Rightarrow> Inl e | Inr comments \<Rightarrow>
     (case sub_get video ''stats'' ''playCount'' of Inl e \<Rightarrow> Inl e | Inr views \<Rightarrow>
        Inr [dict_get video ''id'' (JStr []), d, likes, shares, comments, views,
             dict_get video ''createTime'' (JStr [])])))))"

definition author_video_row :: "dict \<Rightarrow> pyexc + json list" where
  \<comment> \<open>the row of the trending and the hashtag scraper\<close>
  "author_video_row video =
     (case sub_get video ''author'' ''uniqueId'' of Inl e \<Rightarrow> Inl e | Inr author \<Rightarrow>
     (case slice_to 100 (dict_get video ''desc'' (JStr [])) of Inl e \<Rightarrow> Inl e | Inr d \<Rightarrow>
     (case sub_get video ''stats'' ''diggCount'' of Inl e \<Rightarrow> Inl e | Inr likes \<Rightarrow>
     (case sub_get video ''stats'' ''shareCount'' of Inl e \<Rightarrow> Inl e | Inr shares \<Rightarrow>
     (case sub_get video ''stats'' ''commentCount'' of Inl e \<Rightarrow> Inl e | Inr comments \<Rightarrow>
     (case sub_get video ''stats'' ''playCount'' of Inl e \<Rightarrow> Inl e | Inr views \<Rightarrow>
        Inr [dict_get video ''id'' (JStr []), author, d, likes, shares, comments, views,
             dict_get video ''createTime'' (JStr [])]))))))"

definition comment_row :: "dict \<Rightarrow> pyexc + json list" where
  "comment_row comment =
     (case sub_get comment ''user'' ''uniqueId'' of Inl e \<Rightarrow> Inl e | Inr author \<Rightarrow>
     (case slice_to 100 (dict_get comment ''text'' (JStr [])) of Inl e \<Rightarrow> Inl e | Inr t \<Rightarrow>
        Inr [dict_get comment ''id'' (JStr []), author, t,
             dict_get comment ''diggCount'' (JStr []),
             dict_get comment ''createTime'' (JStr [])]))"

definition user_video_header :: "json list" where
  "user_video_header =
     map JStr [''Video ID'', ''Description'', ''Likes'', ''Shares'', ''Comments'', ''Views'', ''Created'']"

definition author_video_header :: "json list" where
  "author_video_header =
     map JStr [''Video ID'', ''Author'', ''Description'', ''Likes'', ''Shares'', ''Comments'',
               ''Views'', ''Created'']"

definition comment_header :: "json list" where
  "comment_header = map JStr [''Comment ID'', ''Author'', ''Text'', ''Likes'', ''Created'']"

definition user_preamble :: "dict \<Rightarrow> json list list" where
  "user_preamble user_data =
     [map JStr [''Type'', ''Field'', ''Value''],
      [JStr ''User'', JStr ''username'', dict_get user_data ''uniqueId'' (JStr [])],
      [JStr ''User'', JStr ''nickname'', dict_get user_data ''nickname'' (JStr [])],
      [JStr ''User'', JStr ''followers'', dict_get user_data ''followerCount'' (JStr [])],
      [JStr ''User'', JStr ''following'', dict_get user_data ''followingCount'' (JStr [])],
      [JStr ''User'', JStr ''videos'', dict_get user_data ''videoCount'' (JStr [])],
      []]"

definition user_csv :: "dict \<Rightarrow> dict list \<Rightarrow> json list list \<times> pyexc option" where
  "user_csv user_data videos =
     (case write_rows user_video_row videos of
        (rs, e) \<Rightarrow> (user_preamble user_data @ user_video_header # rs, e))"

definition author_csv :: "dict list \<Rightarrow> json list list \<times> pyexc option" where
  "author_csv videos =
     (case write_rows author_video_row videos of (rs, e) \<Rightarrow> (author_video_header # rs, e))"

definition video_csv :: "dict \<Rightarrow> bool \<Rightarrow> dict list \<Rightarrow> json list list \<times> pyexc option" where
  "video_csv info include_comments comments =
     (let top = [map JStr [''Type'', ''Field'', ''Value''],
                 [JStr ''Video'', JStr ''id'', dict_get info ''id'' (JStr [])],
                 [JStr ''Video'', JStr ''description'', dict_get info ''desc'' (JStr [])]]
      in case sub_get info ''author'' ''uniqueId'' of Inl e \<Rightarrow> (top, Some e) | Inr author \<Rightarrow>
        (case sub_get info ''stats'' ''diggCount'' of
           Inl e \<Rightarrow> (top @ [[JStr ''Video'', JStr ''author'', author]], Some e)
         | Inr likes \<Rightarrow>
        (case sub_get info ''stats'' ''shareCount'' of
           Inl e \<Rightarrow> (top @ [[JStr ''Video'', JStr ''author'', author],
                           [JStr ''Video'', JStr ''likes'', likes]], Some e)
         | Inr shares \<Rightarrow>
        (case sub_get info ''stats'' ''commentCount'' of
           Inl e \<Rightarrow> (top @ [[JStr ''Video'', JStr ''author'', author],
                           [JStr ''Video'', JStr ''likes'', likes],
                           [JStr ''Video'', JStr ''shares'', shares]], Some e)
         | Inr ncomments \<Rightarrow>
        (case sub_get info ''stats'' ''playCount'' of
           Inl e \<Rightarrow> (top @ [[JStr ''Video'', JStr ''author'', author],
                           [JStr ''Video'', JStr ''likes'', likes],
                           [JStr ''Video'', JStr ''shares'', shares],
                           [JStr ''Video'', JStr ''comments'', ncomments]], Some e)
         | Inr views \<Rightarrow>
             (let rows7 = top @ [[JStr ''Video'', JStr ''author'', author],
                                 [JStr ''Video'', JStr ''likes'', likes],
                                 [JStr ''Video'', JStr ''shares'', shares],
                                 [JStr ''Video'', JStr ''comments'', ncomments],
                                 [JStr ''Video'', JStr ''views'', views]]
              in if include_comments \<and> comments \<noteq> [] then
                   (case write_rows comment_row comments of
                      (rs, e) \<Rightarrow> (rows7 @ [] # comment_header # rs, e))
                 else (rows7, None)))))))"

definition failed :: "string \<Rightarrow> event list \<Rightarrow> pyexc \<Rightarrow> event list \<times> int" where
  \<comment> \<open>the \<open>except Exception\<close> clause of a scraper: the error line, \<open>sys.exit(1)\<close>\<close>
  "failed what evs e = (evs @ [Print (RED @ '' Error scraping '' @ what @ '': '' @ exc_text e)], 1)"

definition save ::
  "remote \<Rightarrow> string \<Rightarrow> event list \<Rightarrow> path \<Rightarrow> string \<Rightarrow> json \<Rightarrow> json list list \<times> pyexc option
     \<Rightarrow> event list \<times> int" where
  \<comment> \<open>the \<open>if output_format == 'json'\<close> statement: \<open>csv\<close> is what the CSV branch writes\<close>
  "save r what evs output_file output_format output_data csv =
     (case open_fails r output_file of
        Some e \<Rightarrow> failed what evs e
      | None \<Rightarrow>
          if output_format = ''json'' then (evs @ [WriteFile output_file (JsonFile output_data)], 0)
          else
            (case csv of
               (written, None) \<Rightarrow> (evs @ [WriteFile output_file (CsvFile written)], 0)
             | (written, Some e) \<Rightarrow>
                 failed what (evs @ [WriteFile output_file (CsvFile written)]) e))"

definition file_name :: "string option \<Rightarrow> string \<Rightarrow> string" where
  \<comment> \<open>\<open>if not output_file: output_file = ...\<close>\<close>
  "file_name output_file auto =
     (case output_file of None \<Rightarrow> auto | Some p \<Rightarrow> if p = [] then auto else p)"

section \<open>The four scrapers\<close>

definition scrape_user ::
  "remote \<Rightarrow> string \<Rightarrow> string \<Rightarrow> string \<Rightarrow> string option \<Rightarrow> int option \<Rightarrow> event list \<times> int" where
  "scrape_user r username ms_token output_format output_file limit =
     (case create_sessions r ms_token of
        Some e \<Rightarrow> failed ''user'' [CreateSessions ms_token] e
      | None \<Rightarrow>
     (case user_info r username of
        Inl e \<Rightarrow> failed ''user'' [CreateSessions ms_token, FetchUserInfo username] e
      | Inr user_data \<Rightarrow>
     (let evs = [CreateSessions ms_token, FetchUserInfo username,
                 FetchUserVideos username (count_or limit 1000)]
      in case collect limit (user_videos r username (count_or limit 1000)) [] 0 of
        Inl e \<Rightarrow> failed ''user'' evs e
      | Inr videos \<Rightarrow>
          save r ''user'' evs
            (file_name output_file
               (''tiktok_user_'' @ username @ ''_'' @ now_stamp r @ ''.'' @ output_format))
            output_format
            (JObj [(''user'', JObj user_data), (''videos'', JArr (map JObj videos)),
                   (''extracted_at'', JStr (now_iso r)),
                   (''total_videos'', JNum (int (length videos)))])
            (user_csv user_data videos))))"

definition scrape_trending ::
  "remote \<Rightarrow> string \<Rightarrow> string \<Rightarrow> string option \<Rightarrow> int option \<Rightarrow> event list \<times> int" where
  "scrape_trending r ms_token output_format output_file limit =
     (case create_sessions r ms_token of
        Some e \<Rightarrow> failed ''trending'' [CreateSessions ms_token] e
      | None \<Rightarrow>
     (let evs = [CreateSessions ms_token, FetchTrending (count_or limit 100)]
      in case collect limit (trending_videos r (count_or limit 100)) [] 0 of
        Inl e \<Rightarrow> failed ''trending'' evs e
      | Inr videos \<Rightarrow>
          save r ''trending'' evs
            (file_name output_file (''tiktok_trending_'' @ now_stamp r @ ''.'' @ output_format))
            output_format
            (JObj [(''videos'', JArr (map JObj videos)),
                   (''extracted_at'', JStr (now_iso r)),
                   (''total_videos'', JNum (int (length videos)))])
            (author_csv videos)))"

definition scrape_hashtag ::
  "remote \<Rightarrow> string \<Rightarrow> string \<Rightarrow> string \<Rightarrow> string option \<Rightarrow> int option \<Rightarrow> event list \<times> int" where
  "scrape_hashtag r hashtag ms_token output_format output_file limit =
     (case create_sessions r ms_token of
        Some e \<Rightarrow> failed ''hashtag'' [CreateSessions ms_token] e
      | None \<Rightarrow>
     (let evs = [CreateSessions ms_token, FetchHashtagVideos hashtag (count_or limit 100)]
      in case collect limit (hashtag_videos r hashtag (count_or limit 100)) [] 0 of
        Inl e \<Rightarrow> failed ''hashtag'' evs e
      | Inr videos \<Rightarrow>
          save r ''hashtag'' evs
            (file_name output_file
               (''tiktok_hashtag_'' @ hashtag @ ''_'' @ now_stamp r @ ''.'' @ output_format))
            output_format
            (JObj [(''hashtag'', JStr hashtag), (''videos'', JArr (map JObj videos)),
                   (''extracted_at'', JStr (now_iso r)),
                   (''total_videos'', JNum (int (length videos)))])
            (author_csv videos)))"

definition scrape_video ::
  "remote \<Rightarrow> string \<Rightarrow> string \<Rightarrow> string \<Rightarrow> string option \<Rightarrow> bool \<Rightarrow> int option
     \<Rightarrow> event list \<times> int" where
  "scrape_video r video_id ms_token output_format output_file include_comments comment_limit =
     (case create_sessions r ms_token of
        Some e \<Rightarrow> failed ''video'' [CreateSessions ms_token] e
      | None \<Rightarrow>
     (let video = (if contains video_id ''tiktok.com'' then ByUrl video_id else ById video_id)
      in case video_info r video of
        Inl e \<Rightarrow> failed ''video'' [CreateSessions ms_token, FetchVideoInfo video] e
      | Inr info \<Rightarrow>
     (case slice_to 50 (dict_get info ''desc'' (JStr ''N/A'')) of
        Inl e \<Rightarrow> failed ''video'' [CreateSessions ms_token, FetchVideoInfo video] e
      | Inr shown \<Rightarrow>
     (let evs = [CreateSessions ms_token, FetchVideoInfo video]
                  @ (if include_comments then [FetchComments video comment_limit] else [])
      in case (if include_comments then collect_all (video_comments r video comment_limit) []
               else Inr []) of
        Inl e \<Rightarrow> failed ''video'' evs e
      | Inr comments \<Rightarrow>
          save r ''video'' evs
            (file_name output_file
               (''tiktok_video_'' @ video_id @ ''_'' @ now_stamp r @ ''.'' @ output_format))
            output_format
            (JObj ([(''video'', JObj info), (''extracted_at'', JStr (now_iso r))]
                   @ (if include_comments
                      then [(''comments'', JArr (map JObj comments)),
                            (''total_comments'', JNum (int (length comments)))]
                      else [])))
            (video_csv info include_comments comments)))))"

section \<open>The command lines of the scraper and of the mock generator\<close>

text \<open>
  The options as given on the command line: \<open>None\<close> where an option is absent,
  integers already converted. \<open>argparse\<close> ends the process with status 2 and a usage
  message when a choice is invalid, a required option is missing or an option is not one
  of the parser's.
\<close>

record raw_args =
  opt_mode :: "string option"
  opt_target :: "string option"
  opt_session :: "string option"
  opt_format :: "string option"
  opt_output :: "string option"
  opt_limit :: "int option"
  opt_comments :: bool
  opt_comment_limit :: "int option"
  opt_followers :: bool
  opt_follower_limit :: "int option"
  opt_quiet :: bool

definition bad_choice :: "raw_args \<Rightarrow> string option" where
  "bad_choice a =
     (if opt_mode a \<noteq> None \<and> opt_mode a \<notin> Some ` {''user'', ''trending'', ''hashtag'', ''video''}
      then Some ''argument -m/--mode: invalid choice''
      else if opt_format a \<noteq> None \<and> opt_format a \<notin> Some ` {''json'', ''csv''}
      then Some ''argument -f/--format: invalid choice''
      else None)"

definition commas :: "string list \<Rightarrow> string" where
  "commas xs = (case xs of [] \<Rightarrow> [] | x # r \<Rightarrow> foldl (\<lambda>acc y. acc @ '', '' @ y) x r)"

definition scraper_usage_error :: "raw_args \<Rightarrow> string option" where
  \<comment> \<open>\<open>parse_args\<close> of the scraper: mode, target and session are required\<close>
  "scraper_usage_error a =
     (case bad_choice a of
        Some m \<Rightarrow> Some m
      | None \<Rightarrow>
          (let missing = (if opt_mode a = None then [''-m/--mode''] else [])
                       @ (if opt_target a = None then [''-t/--target''] else [])
                       @ (if opt_session a = None then [''-s/--session''] else [])
           in if missing \<noteq> [] then
                Some (''the following arguments are required: '' @ commas missing)
              else if opt_followers a \<or> opt_follower_limit a \<noteq> None \<or> opt_quiet a then
                Some ''unrecognized arguments''
              else None))"

definition mock_usage_error :: "raw_args \<Rightarrow> string option" where
  \<comment> \<open>\<open>parse_args\<close> of the mock generator: only the mode is required\<close>
  "mock_usage_error a =
     (case bad_choice a of
        Some m \<Rightarrow> Some m
      | None \<Rightarrow>
          if opt_mode a = None then Some ''the following arguments are required: -m/--mode''
          else None)"

definition or_default :: "'a option \<Rightarrow> 'a \<Rightarrow> 'a" where
  "or_default x d = (case x of None \<Rightarrow> d | Some v \<Rightarrow> v)"

definition scraper_main :: "remote \<Rightarrow> raw_args \<Rightarrow> event list \<times> int" where
  "scraper_main r a =
     (case scraper_usage_error a of
        Some m \<Rightarrow> ([Stderr m], 2)
      | None \<Rightarrow>
     (let session = or_default (opt_session a) [];
          target = or_default (opt_target a) [];
          mode = or_default (opt_mode a) [];
          fmt = or_default (opt_format a) ''json'';
          run = (\<lambda>evs ms_token.
            (case
               (if mode = ''user'' then
                  scrape_user r target ms_token fmt (opt_output a) (opt_limit a)
                else if mode = ''trending'' then
                  scrape_trending r ms_token fmt (opt_output a) (opt_limit a)
                else if mode = ''hashtag'' then
                  scrape_hashtag r target ms_token fmt (opt_output a) (opt_limit a)
                else if mode = ''video'' then
                  scrape_video r target ms_token fmt (opt_output a) (opt_comments a)
                    (if opt_comments a then Some (or_default (opt_comment_limit a) 30) else None)
                else ([], 0)) of
               (evs', status) \<Rightarrow> (evs @ evs', status)))
      in case token_file r session of
        None \<Rightarrow> run [] session
      | Some (Inl e) \<Rightarrow> ([ReadFile session, Stderr (exc_text e)], 1)
      | Some (Inr text) \<Rightarrow> run [ReadFile session] (strip text)))"

text \<open>The functions \<open>mock_scrape_user\<close>, \<open>mock_scrape_trending\<close>, \<open>mock_scrape_hashtag\<close>
  and \<open>mock_scrape_video\<close> make up data from random numbers; what a call of one
  prints, writes and returns is a parameter of \<open>mock_main\<close>, and so is the random
  video id.\<close>

datatype mock_call =
    MockScrapeUser string string "string option" "int option" bool "int option" bool
  | MockScrapeTrending string "string option" "int option"
  | MockScrapeHashtag string string "string option" "int option"
  | MockScrapeVideo string string "string option" bool "int option"

definition last_segment :: "string \<Rightarrow> string" where
  \<comment> \<open>\<open>s.split('/')[-1]\<close>\<close>
  "last_segment t = rev (takeWhile (\<lambda>c. c \<noteq> CHR ''/'') (rev t))"

definition mock_main ::
  "(mock_call \<Rightarrow> event list \<times> int) \<Rightarrow> string \<Rightarrow> raw_args \<Rightarrow> event list \<times> int" where
  "mock_main gen random_id a =
     (case mock_usage_error a of
        Some m \<Rightarrow> ([Stderr m], 2)
      | None \<Rightarrow>
     (let mode = or_default (opt_mode a) [];
          fmt = or_default (opt_format a) ''json'';
          no_target = (case opt_target a of None \<Rightarrow> True | Some t \<Rightarrow> t = []);
          target = or_default (opt_target a) [];
          banner = (if opt_quiet a then []
                    else [Print (YELLOW @ '' [MOCK/TEST MODE] - Generating fake data for testing''),
                          Print (YELLOW @ '' [MOCK] No real TikTok API calls will be made''),
                          Print []]);
          required = (\<lambda>m. (banner @ [Print (RED @ '' Error: --target is required for '' @ m @ '' mode'')],
                           1));
          call = (\<lambda>c. case gen c of (evs, status) \<Rightarrow> (banner @ evs, status))
      in if mode = ''user'' then
           (if no_target then required ''user''
            else call (MockScrapeUser target fmt (opt_output a) (opt_limit a) (opt_followers a)
                         (opt_follower_limit a) (opt_quiet a)))
         else if mode = ''trending'' then
           call (MockScrapeTrending fmt (opt_output a) (opt_limit a))
         else if mode = ''hashtag'' then
           (if no_target then required ''hashtag''
            else call (MockScrapeHashtag target fmt (opt_output a) (opt_limit a)))
         else if mode = ''video'' then
           (if no_target then required ''video''
            else
              (let video_id =
                     (if contains target ''tiktok.com'' then
                        (let v = (if contains target ''/'' then last_segment target else target)
                         in if v = [] \<or> v = target then random_id else v)
                      else target)
               in call (MockScrapeVideo video_id fmt (opt_output a) (opt_comments a)
                          (if opt_comments a then Some (or_default (opt_comment_limit a) 30)
                           else None))))
         else (banner, 0)))"

section \<open>Sample file systems and the predicates of the statements\<close>

text \<open>A Linux home with two Firefox profiles (the second holds a TikTok \<open>msToken\<close>
  cookie) and a Chrome directory whose \<open>Profile 1\<close> holds a \<open>Cookies\<close> file.\<close>

definition plain_db :: cookie_file where
  "plain_db =
     Database [(''moz_cookies'',
       \<lparr> columns = [''id'', ''name'', ''value'', ''host''],
         rows = [[(''id'', SInt 1), (''name'', SText ''sid''), (''value'', SText ''x1''),
                  (''host'', SText ''.example.org'')]] \<rparr>)]"

definition token_db :: cookie_file where
  "token_db =
     Database [(''moz_cookies'',
       \<lparr> columns = [''id'', ''name'', ''value'', ''host''],
         rows = [[(''id'', SInt 1), (''name'', SText ''sessionid''), (''value'', SText ''s9''),
                  (''host'', SText ''.tiktok.com'')],
                 [(''id'', SInt 2), (''name'', SText ''msToken''), (''value'', SText '' tok123 ''),
                  (''host'', SText ''.tiktok.com'')]] \<rparr>)]"

definition chrome_db :: cookie_file where
  "chrome_db =
     Database [(''cookies'',
       \<lparr> columns = [''name'', ''value'', ''host_key'', ''encrypted_value''],
         rows = [[(''name'', SText ''msToken''), (''value'', SText ''tokABC''),
                  (''host_key'', SText ''.tiktok.com''), (''encrypted_value'', SBlob [])]] \<rparr>)]"

definition sample_fs :: fs where
  "sample_fs =
     \<lparr> system = ''Linux'', home = ''/home/u'',
       scandir = (\<lambda>p. if p = ''/home/u/.mozilla/firefox'' then [''a.default'', ''b.release'']
                      else if p = ''/home/u/.config/google-chrome'' then [''Profile 1'']
                      else []),
       isdir = (\<lambda>p. p \<in> {''/home/u/.mozilla/firefox'', ''/home/u/.mozilla/firefox/a.default'',
                           ''/home/u/.mozilla/firefox/b.release'', ''/home/u/.config/google-chrome'',
                           ''/home/u/.config/google-chrome/Profile 1''}),
       lexists = (\<lambda>p. p \<in> {''/home/u/.mozilla/firefox/a.default/cookies.sqlite'',
                             ''/home/u/.mozilla/firefox/b.release/cookies.sqlite'',
                             ''/home/u/.config/google-chrome'',
                             ''/home/u/.config/google-chrome/Profile 1/Cookies''}),
       pexists = (\<lambda>p. p \<in> {''/home/u/.mozilla/firefox/a.default/cookies.sqlite'',
                             ''/home/u/.mozilla/firefox/b.release/cookies.sqlite'',
                             ''/home/u/.config/google-chrome'',
                             ''/home/u/.config/google-chrome/Profile 1/Cookies''}),
       sqlite = (\<lambda>p. if p = ''/home/u/.mozilla/firefox/a.default/cookies.sqlite'' then plain_db
                     else if p = ''/home/u/.mozilla/firefox/b.release/cookies.sqlite'' then token_db
                     else if p = ''/home/u/.config/google-chrome/Profile 1/Cookies'' then chrome_db
                     else CannotOpen ''unable to open database file'') \<rparr>"

text \<open>The same Chrome directory where \<open>Cookies\<close> is a dangling symbolic link: \<open>glob\<close>
  lists it, \<open>os.path.exists\<close> is false for it.\<close>

definition dangling_fs :: fs where
  "dangling_fs =
     \<lparr> system = ''Linux'', home = ''/home/u'',
       scandir = (\<lambda>p. if p = ''/home/u/.config/google-chrome'' then [''Profile 1''] else []),
       isdir = (\<lambda>p. p \<in> {''/home/u/.config/google-chrome'',
                           ''/home/u/.config/google-chrome/Profile 1''}),
       lexists = (\<lambda>p. p \<in> {''/home/u/.config/google-chrome'',
                             ''/home/u/.config/google-chrome/Profile 1'',
                             ''/home/u/.config/google-chrome/Profile 1/Cookies''}),
       pexists = (\<lambda>p. p \<in> {''/home/u/.config/google-chrome'',
                             ''/home/u/.config/google-chrome/Profile 1''}),
       sqlite = (\<lambda>p. CannotOpen ''unable to open database file'') \<rparr>"

definition is_digit :: "char \<Rightarrow> bool" where
  "is_digit c = (48 \<le> (of_char c :: nat) \<and> (of_char c :: nat) \<le> 57)"

definition win_char :: "char \<Rightarrow> char" where
  \<comment> \<open>what \<open>normcase\<close> does to a character on Windows\<close>
  "win_char c = (if c = CHR ''/'' then CHR 0x5C else lower_char c)"

text \<open>A home whose cookie files are all unusable: the Firefox one is no SQLite file,
  the Chrome one is a database without a cookie table.\<close>

definition broken_fs :: fs where
  "broken_fs =
     \<lparr> system = ''Linux'', home = ''/home/u'',
       scandir = (\<lambda>p. if p = ''/home/u/.mozilla/firefox'' then [''a.default''] else []),
       isdir = (\<lambda>p. p \<in> {''/home/u/.mozilla/firefox'', ''/home/u/.mozilla/firefox/a.default'',
                           ''/home/u/.config/google-chrome'',
                           ''/home/u/.config/google-chrome/Default''}),
       lexists = (\<lambda>p. p \<in> {''/home/u/.mozilla/firefox/a.default/cookies.sqlite'',
                             ''/home/u/.config/google-chrome'',
                             ''/home/u/.config/google-chrome/Default/Cookies''}),
       pexists = (\<lambda>p. p \<in> {''/home/u/.mozilla/firefox/a.default/cookies.sqlite'',
                             ''/home/u/.config/google-chrome'',
                             ''/home/u/.config/google-chrome/Default/Cookies''}),
       sqlite = (\<lambda>p. if p = ''/home/u/.mozilla/firefox/a.default/cookies.sqlite'' then NotADatabase
                     else if p = ''/home/u/.config/google-chrome/Default/Cookies''
                     then Database [(''meta'', \<lparr> columns = [''key'', ''value''], rows = [] \<rparr>)]
                     else CannotOpen ''unable to open database file'') \<rparr>"

text \<open>Malformed cookie files: one that cannot be opened, one that is no database, and a
  database of the wrong schema (neither cookie table).\<close>

fun malformed :: "cookie_file \<Rightarrow> bool" where
  "malformed (CannotOpen m) = True"
| "malformed NotADatabase = True"
| "malformed (Database tabs) =
     (map_of tabs ''moz_cookies'' = None \<and> map_of tabs ''cookies'' = None)"





text \<open>Chrome cookie files whose \<open>msToken\<close> value begins with \<open>v1\<close>: stored as TEXT in
  \<open>text.db\<close>, as a BLOB in \<open>blob.db\<close>.\<close>

definition marker_fs :: fs where
  "marker_fs =
     \<lparr> system = ''Linux'', home = ''/home/u'',
       scandir = (\<lambda>p. []), isdir = (\<lambda>p. False), lexists = (\<lambda>p. False), pexists = (\<lambda>p. False),
       sqlite = (\<lambda>p. if p = ''text.db'' then
                       Database [(''cookies'',
                         \<lparr> columns = [''name'', ''value'', ''host_key''],
                           rows = [[(''name'', SText ''msToken''), (''value'', SText ''v10abc''),
                                    (''host_key'', SText ''www.tiktok.com'')]] \<rparr>)]
                     else if p = ''blob.db'' then
                       Database [(''cookies'',
                         \<lparr> columns = [''name'', ''value'', ''host_key''],
                           rows = [[(''name'', SText ''msToken''), (''value'', SBlob ''v10abc''),
                                    (''host_key'', SText ''www.tiktok.com'')]] \<rparr>)]
                     else CannotOpen ''unable to open database file'') \<rparr>"

section \<open>Observers and sample inputs for the scraper\<close>

fun offer :: "'a list \<Rightarrow> 'a stream \<Rightarrow> 'a stream" where
  \<comment> \<open>the remote sequence that yields the given items and then goes on as \<open>rest\<close>\<close>
  "offer [] rest = rest"
| "offer (x # xs) rest = Item x (offer xs rest)"

fun json_videos :: "json \<Rightarrow> json list" where
  \<comment> \<open>the \<open>videos\<close> entry of an output document\<close>
  "json_videos (JObj d) = (case map_of d ''videos'' of Some (JArr vs) \<Rightarrow> vs | _ \<Rightarrow> [])"
| "json_videos x = []"

fun fetch_count :: "event \<Rightarrow> int option list" where
  \<comment> \<open>the \<open>count\<close> a fetch of a remote sequence asks for\<close>
  "fetch_count (FetchUserVideos u n) = [Some n]"
| "fetch_count (FetchTrending n) = [Some n]"
| "fetch_count (FetchHashtagVideos h n) = [Some n]"
| "fetch_count (FetchComments v n) = [n]"
| "fetch_count e = []"

definition fetch_counts :: "event list \<Rightarrow> int option list" where
  "fetch_counts evs = concat (map fetch_count evs)"

fun short :: "json \<Rightarrow> bool" where
  \<comment> \<open>a cell cut to 100: a text of at most 100 characters (or a list of at most 100)\<close>
  "short (JStr t) = (length t \<le> 100)"
| "short (JArr xs) = (length xs \<le> 100)"
| "short x = False"

definition sample_video :: "string \<Rightarrow> string \<Rightarrow> dict" where
  "sample_video ident description =
     [(''id'', JStr ident), (''desc'', JStr description), (''createTime'', JNum 1700000000),
      (''author'', JObj [(''uniqueId'', JStr ''alice'')]),
      (''stats'', JObj [(''diggCount'', JNum 10), (''shareCount'', JNum 2),
                        (''commentCount'', JNum 3), (''playCount'', JNum 99)])]"

definition sample_comment :: "string \<Rightarrow> dict" where
  "sample_comment ident =
     [(''id'', JStr ident), (''text'', JStr ''nice''), (''createTime'', JNum 1700000001),
      (''diggCount'', JNum 1), (''user'', JObj [(''uniqueId'', JStr ''bob'')])]"

text \<open>A remote service that always offers two videos and two comments, whatever count
  is asked for.\<close>

definition sample_remote :: remote where
  "sample_remote =
     \<lparr> create_sessions = (\<lambda>t. None),
       user_info = (\<lambda>u. Inr [(''uniqueId'', JStr u), (''nickname'', JStr ''Alice''),
                             (''followerCount'', JNum 5), (''followingCount'', JNum 6),
                             (''videoCount'', JNum 2)]),
       user_videos = (\<lambda>u n. offer [sample_video ''7001'' ''first clip'',
                                    sample_video ''7002'' ''second clip''] End),
       trending_videos = (\<lambda>n. offer [sample_video ''7001'' ''first clip'',
                                     sample_video ''7002'' ''second clip''] End),
       hashtag_videos = (\<lambda>h n. offer [sample_video ''7001'' ''first clip'',
                                       sample_video ''7002'' ''second clip''] End),
       video_info = (\<lambda>v. Inr (sample_video ''7001'' ''first clip'')),
       video_comments = (\<lambda>v n. offer [sample_comment ''c1'', sample_comment ''c2''] End),
       now_iso = ''2024-01-01T00:00:00'',
       now_stamp = ''20240101_000000'',
       open_fails = (\<lambda>p. None),
       token_file = (\<lambda>p. None) \<rparr>"

text \<open>The same service with a client library that yields whole pages: 101 trending
  videos and 31 comments, whatever count is asked for.\<close>

definition flood_remote :: remote where
  "flood_remote =
     sample_remote
       \<lparr> trending_videos := (\<lambda>n. offer (replicate 101 (sample_video ''7001'' ''first clip'')) End),
         video_comments := (\<lambda>v n. offer (replicate 31 (sample_comment ''c1'')) End) \<rparr>"

definition sample_args :: raw_args where
  "sample_args =
     \<lparr> opt_mode = Some ''user'', opt_target = None, opt_session = Some ''tok'',
       opt_format = None, opt_output = Some ''out.json'', opt_limit = None, opt_comments = False,
       opt_comment_limit = None, opt_followers = False, opt_follower_limit = None,
       opt_quiet = False \<rparr>"

section \<open>Ranking the candidates\<close>

lemma rank_firefox_acc:
  "rank_firefox s files pri oth =
     pri @ filter (\<lambda>f. has_tiktok_cookies s f True) files
       @ oth @ filter (\<lambda>f. \<not> has_tiktok_cookies s f True) files"
  by (induction files arbitrary: pri oth) auto

lemma rank_chrome_edge_acc:
  "rank_chrome_edge s files pri oth =
     pri @ filter (\<lambda>f. has_tiktok_cookies s f False) (filter (pexists s) files)
       @ oth @ filter (\<lambda>f. \<not> has_tiktok_cookies s f False) (filter (pexists s) files)"
  by (induction files arbitrary: pri oth) auto

lemma mset_two_filters: "mset (filter P xs @ filter (\<lambda>x. \<not> P x) xs) = mset xs"
  by (induction xs) auto

lemma mset_rank_chrome_edge:
  "mset (rank_chrome_edge s files [] []) = mset (filter (pexists s) files)"
  unfolding rank_chrome_edge_acc append_Nil by (rule mset_two_filters)

lemma probe_sample_a:
  "has_tiktok_cookies sample_fs ''/home/u/.mozilla/firefox/a.default/cookies.sqlite'' True = False"
  by code_simp

lemma probe_sample_b:
  "has_tiktok_cookies sample_fs ''/home/u/.mozilla/firefox/b.release/cookies.sqlite'' True = True"
  by code_simp

text \<open>
  C1 (as amended). The ranking loop of \<open>get_firefox_cookie_files\<close> returns the candidates
  for which the probe \<open>has_tiktok_cookies\<close> is true, in their original order, followed by
  those for which it is false, in their original order: a stable partition and a
  permutation of its input. The ranking loop of \<open>get_chrome_cookie_files\<close> and
  \<open>get_edge_cookie_files\<close> does the same with the candidates for which \<open>os.path.exists\<close>
  holds, and drops the others: its result is a permutation of the existing candidates.
\<close>

theorem rank_stable_partition:
  "rank_firefox s files [] [] =
     filter (\<lambda>f. has_tiktok_cookies s f True) files
       @ filter (\<lambda>f. \<not> has_tiktok_cookies s f True) files
   \<and> mset (rank_firefox s files [] []) = mset files
   \<and> rank_chrome_edge s files [] [] =
       filter (\<lambda>f. has_tiktok_cookies s f False) (filter (pexists s) files)
         @ filter (\<lambda>f. \<not> has_tiktok_cookies s f False) (filter (pexists s) files)
   \<and> mset (rank_chrome_edge s files [] []) = mset (filter (pexists s) files)"
proof -
  have f: "rank_firefox s files [] [] =
     filter (\<lambda>f. has_tiktok_cookies s f True) files
       @ filter (\<lambda>f. \<not> has_tiktok_cookies s f True) files"
    by (simp add: rank_firefox_acc)
  have c: "rank_chrome_edge s files [] [] =
       filter (\<lambda>f. has_tiktok_cookies s f False) (filter (pexists s) files)
         @ filter (\<lambda>f. \<not> has_tiktok_cookies s f False) (filter (pexists s) files)"
    by (simp add: rank_chrome_edge_acc)
  have mf: "mset (rank_firefox s files [] []) = mset files"
    unfolding f by (rule mset_two_filters)
  from f c mf mset_rank_chrome_edge show ?thesis by blast
qed

theorem rank_stable_partition_witness:
  "rank_firefox sample_fs
     [''/home/u/.mozilla/firefox/a.default/cookies.sqlite'',
      ''/home/u/.mozilla/firefox/b.release/cookies.sqlite''] [] [] =
     [''/home/u/.mozilla/firefox/b.release/cookies.sqlite'',
      ''/home/u/.mozilla/firefox/a.default/cookies.sqlite'']"
  using rank_stable_partition [of sample_fs
     "[''/home/u/.mozilla/firefox/a.default/cookies.sqlite'',
       ''/home/u/.mozilla/firefox/b.release/cookies.sqlite'']"]
  by (simp add: probe_sample_a probe_sample_b)

text \<open>C1 as stated fails: a \<open>Cookies\<close> entry that is a dangling symbolic link is listed by
  \<open>glob\<close> (twice) and dropped by the ranking loop of \<open>get_chrome_cookie_files\<close>, whose
  result is then no permutation of its input.\<close>

theorem rank_chrome_edge_drops_candidate:
  "chrome_candidates dangling_fs =
     [''/home/u/.config/google-chrome/Profile 1/Cookies'',
      ''/home/u/.config/google-chrome/Profile 1/Cookies'']
   \<and> rank_chrome_edge dangling_fs (chrome_candidates dangling_fs) [] [] = []
   \<and> mset (rank_chrome_edge dangling_fs (chrome_candidates dangling_fs) [] [])
       \<noteq> mset (chrome_candidates dangling_fs)"
proof -
  have c: "chrome_candidates dangling_fs =
     [''/home/u/.config/google-chrome/Profile 1/Cookies'',
      ''/home/u/.config/google-chrome/Profile 1/Cookies'']"
    by code_simp
  have r: "rank_chrome_edge dangling_fs (chrome_candidates dangling_fs) [] [] = []"
    by code_simp
  show ?thesis unfolding r unfolding c by simp
qed

section \<open>Numbered profiles are listed twice\<close>

lemma matches_star: "matches [GStar] n"
  by (induction n) auto

lemma matches_lits: "matches (map GLit p @ ts) (p @ n) = matches ts n"
  by (induction p) auto

lemma win_profile: "map win_char ''Profile '' = ''profile ''"
  by code_simp

lemma toks_star: "tokens ''Profile *'' = map GLit ''Profile '' @ [GStar]"
  by code_simp

lemma toks_star_win: "tokens (map win_char ''Profile *'') = map GLit ''profile '' @ [GStar]"
  by code_simp

lemma toks_num: "tokens ''Profile [0-9]*'' = map GLit ''Profile '' @ [GClass ''0-9'', GStar]"
  by code_simp

lemma toks_num_win:
  "tokens (map win_char ''Profile [0-9]*'') = map GLit ''profile '' @ [GClass ''0-9'', GStar]"
  by code_simp

lemma normcase_windows: "system s = ''Windows'' \<Longrightarrow> normcase s n = map win_char n"
  by (simp add: normcase_def win_char_def)

lemma normcase_other: "system s \<noteq> ''Windows'' \<Longrightarrow> normcase s n = n"
  by (simp add: normcase_def)

lemma win_digit: "is_digit c \<Longrightarrow> win_char c = c"
  by (auto simp: is_digit_def win_char_def lower_char_def Let_def)

lemma fnmatch_profile_star: "fnmatch s (''Profile '' @ rest) ''Profile *''"
proof (cases "system s = ''Windows''")
  case True
  have "matches (map GLit ''profile '' @ [GStar]) (''profile '' @ map win_char rest)"
    unfolding matches_lits by (rule matches_star)
  then show ?thesis
    unfolding fnmatch_def normcase_windows [OF True] toks_star_win
    unfolding map_append win_profile .
next
  case False
  have "matches (map GLit ''Profile '' @ [GStar]) (''Profile '' @ rest)"
    unfolding matches_lits by (rule matches_star)
  then show ?thesis
    unfolding fnmatch_def normcase_other [OF False] toks_star .
qed

lemma fnmatch_profile_numbered:
  assumes "is_digit n"
  shows "fnmatch s (''Profile '' @ n # rest) ''Profile [0-9]*''"
proof -
  have cls: "in_class ''0-9'' n"
    using assms by (simp add: in_class_def is_digit_def)
  show ?thesis
  proof (cases "system s = ''Windows''")
    case True
    have "matches (map GLit ''profile '' @ [GClass ''0-9'', GStar])
            (''profile '' @ n # map win_char rest)"
      unfolding matches_lits using cls by (simp add: matches_star)
    moreover have "map win_char (''Profile '' @ n # rest) = ''profile '' @ n # map win_char rest"
      unfolding map_append win_profile by (simp add: win_digit [OF assms])
    ultimately show ?thesis
      unfolding fnmatch_def normcase_windows [OF True] toks_num_win by simp
  next
    case False
    have "matches (map GLit ''Profile '' @ [GClass ''0-9'', GStar]) (''Profile '' @ n # rest)"
      unfolding matches_lits using cls by (simp add: matches_star)
    then show ?thesis
      unfolding fnmatch_def normcase_other [OF False] toks_num .
  qed
qed

lemma glob_member:
  assumes "d \<in> set (scandir s base)" "isdir s (join s base d)" "fnmatch s d pat"
    "is_hidden pat \<or> \<not> is_hidden d" "lexists s (join s (join s base d) leaf)"
  shows "join s (join s base d) leaf \<in> set (glob s base pat leaf)"
  using assms by (auto simp: glob_def glob1_def)

lemma count_list_ge1: "x \<in> set xs \<Longrightarrow> 1 \<le> count_list xs x"
  by (induction xs) auto

lemma distinct_count_le1: "distinct xs \<Longrightarrow> count_list xs x \<le> 1"
  by (induction xs) (auto simp: count_list_0_iff)

lemma profile_twice:
  assumes "pexists s (expanduser s base_path)"
    and "d \<in> set (scandir s (expanduser s base_path))"
    and "d = ''Profile '' @ n # rest" and "is_digit n"
    and "isdir s (join s (expanduser s base_path) d)"
    and "lexists s (join s (join s (expanduser s base_path) d) ''Cookies'')"
  shows "2 \<le> count_list (profile_cookie_files s base_path)
           (join s (join s (expanduser s base_path) d) ''Cookies'')"
proof -
  let ?p = "join s (join s (expanduser s base_path) d) ''Cookies''"
  have nh: "\<not> is_hidden d" using assms(3) by (simp add: is_hidden_def startswith_def)
  have m1: "fnmatch s d ''Profile *''"
    using fnmatch_profile_star [of s "n # rest"] assms(3) by simp
  have m2: "fnmatch s d ''Profile [0-9]*''"
    using fnmatch_profile_numbered [OF assms(4), of s rest] assms(3) by simp
  have g1: "1 \<le> count_list (glob s (expanduser s base_path) ''Profile *'' ''Cookies'') ?p"
    by (rule count_list_ge1, rule glob_member) (use assms nh m1 in auto)
  have g2: "1 \<le> count_list (glob s (expanduser s base_path) ''Profile [0-9]*'' ''Cookies'') ?p"
    by (rule count_list_ge1, rule glob_member) (use assms nh m2 in auto)
  show ?thesis using g1 g2 assms(1)
    by (simp add: profile_cookie_files_def Let_def)
qed

lemma chrome_candidates_single:
  "base_path \<in> set (chrome_base_paths s) \<Longrightarrow> chrome_candidates s = profile_cookie_files s base_path"
  by (auto simp: chrome_candidates_def chrome_base_paths_def split: if_splits)

lemma edge_candidates_single:
  "base_path \<in> set (edge_base_paths s) \<Longrightarrow> edge_candidates s = profile_cookie_files s base_path"
  by (auto simp: edge_candidates_def edge_base_paths_def split: if_splits)

lemma count_rank_chrome_edge:
  "pexists s p \<Longrightarrow> count_list (rank_chrome_edge s files [] []) p = count_list files p"
proof -
  assume e: "pexists s p"
  have "count (mset (rank_chrome_edge s files [] [])) p = count (mset (filter (pexists s) files)) p"
    by (simp only: mset_rank_chrome_edge)
  also have "\<dots> = count (mset files) p" using e by simp
  finally show ?thesis by (simp only: count_mset)
qed

text \<open>
  C10. Let \<open>base_path\<close> be the Chrome (or Edge) directory of the platform, existing, and
  \<open>d\<close> one of its sub-directories named \<open>Profile\<close>, a space, a digit and anything more,
  holding an entry \<open>Cookies\<close>. Then the path of that entry occurs at least twice among
  the candidates \<open>chrome_candidates\<close> (or \<open>edge_candidates\<close>): once for the pattern
  \<open>Profile */Cookies\<close> and once for \<open>Profile [0-9]*/Cookies\<close>. The sequence handed to
  the ranking loop is not duplicate-free, and if the entry exists for \<open>os.path.exists\<close>
  it is twice in the result of \<open>get_chrome_cookie_files\<close> (or \<open>get_edge_cookie_files\<close>)
  too.
\<close>

theorem numbered_profile_listed_twice:
  assumes "pexists s (expanduser s base_path)"
    and "d \<in> set (scandir s (expanduser s base_path))"
    and "d = ''Profile '' @ n # rest" and "is_digit n"
    and "isdir s (join s (expanduser s base_path) d)"
    and "lexists s (join s (join s (expanduser s base_path) d) ''Cookies'')"
    and "p = join s (join s (expanduser s base_path) d) ''Cookies''"
  shows "(base_path \<in> set (chrome_base_paths s) \<longrightarrow>
            2 \<le> count_list (chrome_candidates s) p \<and> \<not> distinct (chrome_candidates s)
            \<and> (pexists s p \<longrightarrow> 2 \<le> count_list (get_chrome_cookie_files s) p))
       \<and> (base_path \<in> set (edge_base_paths s) \<longrightarrow>
            2 \<le> count_list (edge_candidates s) p \<and> \<not> distinct (edge_candidates s)
            \<and> (pexists s p \<longrightarrow> 2 \<le> count_list (get_edge_cookie_files s) p))"
proof -
  have two: "2 \<le> count_list (profile_cookie_files s base_path) p"
    unfolding assms(7) by (rule profile_twice [OF assms(1-6)])
  have nd: "\<not> distinct (profile_cookie_files s base_path)"
    using two distinct_count_le1 [of "profile_cookie_files s base_path" p] by auto
  show ?thesis
    using two nd
    by (auto simp: get_chrome_cookie_files_def get_edge_cookie_files_def count_rank_chrome_edge
          dest!: chrome_candidates_single edge_candidates_single)
qed

theorem numbered_profile_listed_twice_witness:
  "2 \<le> count_list (chrome_candidates sample_fs) ''/home/u/.config/google-chrome/Profile 1/Cookies''
   \<and> \<not> distinct (chrome_candidates sample_fs)
   \<and> 2 \<le> count_list (get_chrome_cookie_files sample_fs)
            ''/home/u/.config/google-chrome/Profile 1/Cookies''"
proof -
  have b: "''~/.config/google-chrome'' \<in> set (chrome_base_paths sample_fs)"
    by (simp add: chrome_base_paths_def sample_fs_def)
  have x: "expanduser sample_fs ''~/.config/google-chrome'' = ''/home/u/.config/google-chrome''"
    by (simp add: expanduser_def startswith_def sample_fs_def)
  have j: "join sample_fs (join sample_fs ''/home/u/.config/google-chrome'' ''Profile 1'') ''Cookies''
             = ''/home/u/.config/google-chrome/Profile 1/Cookies''"
    by (simp add: join_def sep_def sample_fs_def)
  have j1: "join sample_fs ''/home/u/.config/google-chrome'' ''Profile 1''
             = ''/home/u/.config/google-chrome/Profile 1''"
    by (simp add: join_def sep_def sample_fs_def)
  have h1: "pexists sample_fs (expanduser sample_fs ''~/.config/google-chrome'')"
    unfolding x by (simp add: sample_fs_def)
  have h2: "''Profile 1'' \<in> set (scandir sample_fs (expanduser sample_fs ''~/.config/google-chrome''))"
    unfolding x by (simp add: sample_fs_def)
  have h3: "''Profile 1'' = ''Profile '' @ CHR ''1'' # []" by simp
  have h4: "is_digit CHR ''1''" by (simp add: is_digit_def)
  have h5: "isdir sample_fs (join sample_fs (expanduser sample_fs ''~/.config/google-chrome'') ''Profile 1'')"
    unfolding x j1 by (simp add: sample_fs_def)
  have h6: "lexists sample_fs
     (join sample_fs (join sample_fs (expanduser sample_fs ''~/.config/google-chrome'') ''Profile 1'') ''Cookies'')"
    unfolding x j by (simp add: sample_fs_def)
  have h7: "''/home/u/.config/google-chrome/Profile 1/Cookies'' =
     join sample_fs (join sample_fs (expanduser sample_fs ''~/.config/google-chrome'') ''Profile 1'') ''Cookies''"
    unfolding x j by simp
  have e: "pexists sample_fs ''/home/u/.config/google-chrome/Profile 1/Cookies''"
    by (simp add: sample_fs_def)
  show ?thesis
    using numbered_profile_listed_twice [OF h1 h2 h3 h4 h5 h6 h7] b e by blast
qed

section \<open>Unusable cookie files\<close>

lemma probe_malformed:
  assumes "malformed (sqlite s q)"
  shows "has_tiktok_cookies s q b = False"
proof (cases "sqlite s q")
  case (CannotOpen m)
  then show ?thesis by (simp add: has_tiktok_cookies_def has_tiktok_cookies_body_def connect_def)
next
  case NotADatabase
  then show ?thesis
    by (simp add: has_tiktok_cookies_def has_tiktok_cookies_body_def connect_def either_rows_def any_rows_def)
next
  case (Database tabs)
  then show ?thesis using assms
    by (simp add: has_tiktok_cookies_def has_tiktok_cookies_body_def connect_def either_rows_def any_rows_def)
qed

lemma firefox_loop_no_table:
  "map_of tabs ''moz_cookies'' = None \<Longrightarrow> firefox_names_loop (Database tabs) [''msToken'', ''ms_token''] = Inr None"
  by (simp add: firefox_queries_def firefox_step_def)

lemma firefox_loop_not_db:
  "\<exists>e. firefox_names_loop NotADatabase [''msToken'', ''ms_token''] = Inl e"
  by (simp add: firefox_queries_def firefox_step_def)

lemma firefox_malformed:
  assumes "malformed (sqlite s q)"
  shows "snd (extract_ms_token_from_firefox s q) = None"
proof (cases "sqlite s q")
  case (CannotOpen m)
  then show ?thesis by (simp add: extract_ms_token_from_firefox_def connect_def)
next
  case NotADatabase
  obtain e where "firefox_names_loop NotADatabase [''msToken'', ''ms_token''] = Inl e"
    using firefox_loop_not_db by blast
  then show ?thesis using NotADatabase
    by (simp add: extract_ms_token_from_firefox_def connect_def del: firefox_names_loop.simps)
next
  case (Database tabs)
  then have "firefox_names_loop (Database tabs) [''msToken'', ''ms_token''] = Inr None"
    using assms by (simp only: malformed.simps firefox_loop_no_table)
  then show ?thesis using Database
    by (simp add: extract_ms_token_from_firefox_def connect_def del: firefox_names_loop.simps)
qed

lemma chrome_loop_malformed:
  "malformed conn \<Longrightarrow> chrome_names_loop conn f [''msToken'', ''ms_token''] = ([], None)"
  by (cases conn) (simp_all add: chrome_queries_def chrome_step_def)

lemma chrome_malformed:
  assumes "malformed (sqlite s q)"
  shows "snd (extract_ms_token_from_chrome_edge s q) = None"
proof (cases "sqlite s q")
  case (CannotOpen m)
  then show ?thesis by (simp add: extract_ms_token_from_chrome_edge_def connect_def)
next
  case NotADatabase
  then show ?thesis
    using chrome_loop_malformed [of NotADatabase q]
    by (simp add: extract_ms_token_from_chrome_edge_def connect_def del: chrome_names_loop.simps)
next
  case (Database tabs)
  then show ?thesis using assms chrome_loop_malformed [of "Database tabs" q]
    by (simp add: extract_ms_token_from_chrome_edge_def connect_def del: chrome_names_loop.simps)
qed

lemma check_files_none:
  "\<forall>f \<in> set files. snd (extractor f) = None \<Longrightarrow> snd (check_files extractor label files) = None"
proof (induction files)
  case Nil
  then show ?case by simp
next
  case (Cons a files)
  obtain out where a: "extractor a = (out, None)"
    using Cons.prems by (cases "extractor a") auto
  obtain out' where r: "check_files extractor label files = (out', None)"
    using Cons by (cases "check_files extractor label files") auto
  show ?case by (simp add: a r)
qed

lemma search_files_none:
  assumes "\<forall>f \<in> set files. snd (extractor f) = None"
  shows "snd (search_files trying label extractor files) = None"
  using check_files_none [OF assms, of label]
  by (cases "check_files extractor label files") (auto simp: search_files_def)

lemma try_browser_none:
  assumes "\<forall>p \<in> set (get_firefox_cookie_files s) \<union> set (get_chrome_cookie_files s)
                 \<union> set (get_edge_cookie_files s). malformed (sqlite s p)"
  shows "snd (try_browser s browser) = None"
proof -
  have f: "\<forall>p \<in> set (get_firefox_cookie_files s). snd (extract_ms_token_from_firefox s p) = None"
    using assms firefox_malformed by blast
  have c: "\<forall>p \<in> set (get_chrome_cookie_files s). snd (extract_ms_token_from_chrome_edge s p) = None"
    using assms chrome_malformed by blast
  have e: "\<forall>p \<in> set (get_edge_cookie_files s). snd (extract_ms_token_from_chrome_edge s p) = None"
    using assms chrome_malformed by blast
  show ?thesis
    unfolding try_browser_def Let_def
    by (simp add: search_files_none [OF f] search_files_none [OF c] search_files_none [OF e])
qed

lemma browsers_loop_none:
  "\<forall>b. snd (try_browser s b) = None \<Longrightarrow> snd (browsers_loop s bs) = None"
proof (induction bs)
  case Nil
  then show ?case by simp
next
  case (Cons b bs)
  obtain out where a: "try_browser s b = (out, None)"
    using Cons.prems by (cases "try_browser s b") (auto dest: spec [of _ b])
  obtain out' where r: "browsers_loop s bs = (out', None)"
    using Cons by (cases "browsers_loop s bs") auto
  show ?case by (simp add: a r)
qed

text \<open>
  C6. If every candidate cookie file of the three browsers is malformed (it cannot be
  opened, it is no SQLite database, or it is a database with neither cookie table),
  which includes the states where the profile directories are missing or empty and there
  is no candidate at all, then \<open>extract_ms_token\<close> returns \<open>None\<close>. It raises nothing:
  every exception of a step is a value here, and each is caught where the source
  catches it. The probe \<open>has_tiktok_cookies\<close> answers \<open>False\<close> on every malformed
  file, whatever the error was.
\<close>

theorem extract_ms_token_malformed:
  assumes "\<forall>p \<in> set (get_firefox_cookie_files s) \<union> set (get_chrome_cookie_files s)
                 \<union> set (get_edge_cookie_files s). malformed (sqlite s p)"
  shows "snd (extract_ms_token s preferred_browser) = None
         \<and> (\<forall>q b. malformed (sqlite s q) \<longrightarrow> has_tiktok_cookies s q b = False)"
proof -
  have "\<forall>b. snd (try_browser s b) = None"
    using try_browser_none [OF assms] by blast
  then have "snd (extract_ms_token s preferred_browser) = None"
    unfolding extract_ms_token_def by (rule browsers_loop_none)
  then show ?thesis using probe_malformed by blast
qed

lemma broken_all: "malformed (sqlite broken_fs p)"
  by (simp add: broken_fs_def)

theorem extract_ms_token_malformed_witness:
  "snd (extract_ms_token broken_fs None) = None
   \<and> get_firefox_cookie_files broken_fs = [''/home/u/.mozilla/firefox/a.default/cookies.sqlite'']
   \<and> get_chrome_cookie_files broken_fs = [''/home/u/.config/google-chrome/Default/Cookies'']
   \<and> has_tiktok_cookies broken_fs ''/home/u/.mozilla/firefox/a.default/cookies.sqlite'' True = False"
proof -
  have f: "get_firefox_cookie_files broken_fs = [''/home/u/.mozilla/firefox/a.default/cookies.sqlite'']"
    by code_simp
  have c: "get_chrome_cookie_files broken_fs = [''/home/u/.config/google-chrome/Default/Cookies'']"
    by code_simp
  have h: "\<forall>p \<in> set (get_firefox_cookie_files broken_fs) \<union> set (get_chrome_cookie_files broken_fs)
                 \<union> set (get_edge_cookie_files broken_fs). malformed (sqlite broken_fs p)"
    using broken_all by blast
  show ?thesis
    using extract_ms_token_malformed [OF h, of None] f c broken_all by blast
qed

section \<open>The exit status of the locator\<close>

lemma check_files_truthy:
  "check_files extractor label files = (out, Some t) \<Longrightarrow> token_truthy t"
proof (induction files arbitrary: out)
  case Nil
  then show ?case by simp
next
  case (Cons a files)
  obtain o1 r1 where a: "extractor a = (o1, r1)" by (cases "extractor a")
  obtain o2 r2 where r: "check_files extractor label files = (o2, r2)"
    by (cases "check_files extractor label files")
  show ?case
  proof (cases "case r1 of Some t \<Rightarrow> token_truthy t | None \<Rightarrow> False")
    case True
    then show ?thesis using Cons.prems a by (auto split: option.splits)
  next
    case False
    then have "r2 = Some t" using Cons.prems a r by simp
    then show ?thesis using Cons.IH r by simp
  qed
qed

lemma search_files_truthy:
  assumes "search_files trying label extractor files = (o', Some t)"
  shows "token_truthy t"
proof -
  obtain o2 r2 where r: "check_files extractor label files = (o2, r2)"
    by (cases "check_files extractor label files")
  from assms r have "r2 = Some t" by (auto simp: search_files_def split: if_splits)
  then show ?thesis using check_files_truthy r by blast
qed

lemma try_browser_truthy:
  assumes "try_browser s browser = (out, Some t)"
  shows "token_truthy t"
  using assms unfolding try_browser_def Let_def
  by (auto split: if_splits dest: search_files_truthy)

lemma browsers_loop_truthy:
  "browsers_loop s bs = (out, Some t) \<Longrightarrow> token_truthy t"
proof (induction bs arbitrary: out)
  case Nil
  then show ?case by simp
next
  case (Cons b bs)
  obtain o1 r1 where a: "try_browser s b = (o1, r1)" by (cases "try_browser s b")
  obtain o2 r2 where r: "browsers_loop s bs = (o2, r2)" by (cases "browsers_loop s bs")
  show ?case
  proof (cases r1)
    case None
    then have "r2 = Some t" using Cons.prems a r by simp
    then show ?thesis using Cons.IH r by simp
  next
    case (Some t')
    then have "t' = t" using Cons.prems a by simp
    then show ?thesis using try_browser_truthy a Some by blast
  qed
qed

lemma extract_ms_token_truthy:
  "extract_ms_token s b = (out, Some t) \<Longrightarrow> token_truthy t"
  unfolding extract_ms_token_def by (rule browsers_loop_truthy)

text \<open>
  C9. The locator exits with status 0 exactly when nothing disturbs the run and
  \<open>extract_ms_token\<close> returns a token (whether or not the token could then be saved),
  and with status 1 in every other case: no token, a \<open>KeyboardInterrupt\<close>, or an
  exception at the top level.
\<close>

theorem locator_exit_status:
  "(snd (locator_main s w d args) = 0) =
     (d = Undisturbed \<and> (\<exists>t. snd (extract_ms_token s (arg_browser args)) = Some t))
   \<and> (snd (locator_main s w d args) = 0 \<or> snd (locator_main s w d args) = 1)"
proof (cases d)
  case Undisturbed
  obtain out r where e: "extract_ms_token s (arg_browser args) = (out, r)"
    by (cases "extract_ms_token s (arg_browser args)")
  show ?thesis
  proof (cases r)
    case None
    then show ?thesis using Undisturbed e by (simp add: locator_main_def)
  next
    case (Some t)
    then have "token_truthy t" using e extract_ms_token_truthy by blast
    then show ?thesis using Undisturbed e Some by (simp add: locator_main_def)
  qed
next
  case KeyboardInterrupt
  then show ?thesis by (simp add: locator_main_def)
next
  case (Raised e)
  then show ?thesis by (simp add: locator_main_def)
qed

lemma sample_token: "snd (extract_ms_token sample_fs None) = Some (Str ''tok123'')"
  by code_simp

theorem locator_exit_status_witness:
  "snd (locator_main sample_fs (\<lambda>p. None) Undisturbed
          \<lparr> arg_browser = None, arg_output = ''ms_token.txt'', arg_stdout = False \<rparr>) = 0
   \<and> snd (locator_main sample_fs (\<lambda>p. None) KeyboardInterrupt
          \<lparr> arg_browser = None, arg_output = ''ms_token.txt'', arg_stdout = False \<rparr>) = 1"
  using locator_exit_status [of sample_fs "\<lambda>p. None" Undisturbed
          "\<lparr> arg_browser = None, arg_output = ''ms_token.txt'', arg_stdout = False \<rparr>"]
        locator_exit_status [of sample_fs "\<lambda>p. None" KeyboardInterrupt
          "\<lparr> arg_browser = None, arg_output = ''ms_token.txt'', arg_stdout = False \<rparr>"]
  by (auto simp add: sample_token)

section \<open>The value an extraction returns\<close>












text \<open>The whitespace \<open>strip\<close> removes is Python's: the no-break space and NEL go with
  the ASCII whitespace, also in a text decoded from the bytes of a BLOB, where each is
  two bytes.\<close>

lemma strip_no_break_space:
  "strip (CHR 0xA0 # ''tokNB'' @ [CHR 0x85]) = ''tokNB'' \<and> strip [CHR 0xA0] = []"
  by code_simp

lemma chrome_value_decoded:
  "chrome_value f (SBlob (''tok'' @ [CHR 0xC2, CHR 0xA0])) = ([], Some (Str ''tok''))
   \<and> chrome_value f (SBlob (''tok'' @ [CHR 0xE2, CHR 0x82, CHR 0xAC]))
       = ([], Some (Wide [116, 111, 107, 8364]))"
  by code_simp





text \<open>
  C5 at a text value that begins with \<open>v1\<close>: the Chrome/Edge extraction skips the value,
  goes on to the next statement and returns \<open>None\<close>, and prints no line at all. The
  same value stored as a BLOB is skipped with the two warning lines, once for each of
  the four statements that select it.
\<close>

theorem text_marker_skipped_silently:
  "extract_ms_token_from_chrome_edge marker_fs ''text.db'' = ([], None)
   \<and> extract_ms_token_from_chrome_edge marker_fs ''blob.db'' =
       (encrypted_warning ''blob.db'' @ encrypted_warning ''blob.db''
          @ encrypted_warning ''blob.db'' @ encrypted_warning ''blob.db'', None)"
proof -
  have a: "extract_ms_token_from_chrome_edge marker_fs ''text.db'' = ([], None)"
    by code_simp
  have b: "extract_ms_token_from_chrome_edge marker_fs ''blob.db'' =
       (encrypted_warning ''blob.db'' @ encrypted_warning ''blob.db''
          @ encrypted_warning ''blob.db'' @ encrypted_warning ''blob.db'', None)"
    by code_simp
  from a b show ?thesis by simp
qed

section \<open>The limit on collected videos\<close>

lemma collect_bound:
  "0 < l \<Longrightarrow> collect (Some l) st vs n = Inr res \<Longrightarrow> int (length vs) \<le> n \<Longrightarrow> n < l
     \<Longrightarrow> int (length res) \<le> l"
proof (induction st arbitrary: vs n)
  case End
  then show ?case by simp
next
  case (Fails e)
  then show ?case by simp
next
  case (Item v st)
  show ?case
  proof (cases "l \<le> n + 1")
    case True
    then have "res = vs @ [v]" using Item.prems by simp
    then show ?thesis using Item.prems by simp
  next
    case False
    then have "collect (Some l) st (vs @ [v]) (n + 1) = Inr res" using Item.prems by simp
    from Item.IH [OF Item.prems(1) this] show ?thesis using False Item.prems by simp
  qed
qed

lemma collect_take:
  "0 < l \<Longrightarrow> n = int (length vs) \<Longrightarrow> n < l \<Longrightarrow> l \<le> n + int (length xs)
     \<Longrightarrow> collect (Some l) (offer xs rest) vs n = Inr (vs @ take (nat (l - n)) xs)"
proof (induction xs arbitrary: vs n)
  case Nil
  then show ?case by simp
next
  case (Cons x xs)
  show ?case
  proof (cases "l \<le> n + 1")
    case True
    then have "nat (l - n) = 1" using Cons.prems by simp
    then show ?thesis using True Cons.prems by simp
  next
    case False
    have "collect (Some l) (offer xs rest) (vs @ [x]) (n + 1)
            = Inr ((vs @ [x]) @ take (nat (l - (n + 1))) xs)"
      by (rule Cons.IH) (use False Cons.prems in auto)
    moreover have "nat (l - n) = Suc (nat (l - (n + 1)))" using False by simp
    ultimately show ?thesis using False Cons.prems by simp
  qed
qed

lemma collect_zero: "collect (Some 0) st vs n = collect None st vs n"
  by (induction st arbitrary: vs n) auto

lemma write_rows_length: "length (fst (write_rows mk xs)) \<le> length xs"
  by (induction xs) (auto split: sum.splits prod.splits)

lemma failed_writes:
  "WriteFile p c \<in> set (fst (failed what evs e)) \<Longrightarrow> WriteFile p c \<in> set evs"
  by (simp add: failed_def)

lemma save_writes:
  "WriteFile p c \<in> set (fst (save r what evs name fmt doc csv))
     \<Longrightarrow> WriteFile p c \<in> set evs \<or> c = JsonFile doc \<or> c = CsvFile (fst csv)"
  by (auto simp: save_def failed_def split: option.splits if_splits prod.splits)

lemma user_writes:
  assumes "0 < l" and "WriteFile p c \<in> set (fst (scrape_user r u tok fmt out (Some l)))"
  shows "case c of JsonFile doc \<Rightarrow> int (length (json_videos doc)) \<le> l
                 | CsvFile rws \<Rightarrow> int (length rws) \<le> 8 + l"
proof (cases "create_sessions r tok")
  case (Some e)
  then show ?thesis using assms(2) by (simp add: scrape_user_def failed_def)
next
  case None
  show ?thesis
  proof (cases "user_info r u")
    case (Inl e)
    then show ?thesis using assms(2) None by (simp add: scrape_user_def failed_def)
  next
    case (Inr ud)
    show ?thesis
    proof (cases "collect (Some l) (user_videos r u (count_or (Some l) 1000)) [] 0")
      case (Inl e)
      then show ?thesis using assms(2) None Inr by (simp add: scrape_user_def failed_def Let_def)
    next
      case (Inr videos)
      have b: "int (length videos) \<le> l"
        using collect_bound [OF assms(1) Inr] assms(1) by simp
      have rl: "length (fst (write_rows user_video_row videos)) \<le> length videos"
        by (rule write_rows_length)
      have "c = JsonFile (JObj [(''user'', JObj ud), (''videos'', JArr (map JObj videos)),
                   (''extracted_at'', JStr (now_iso r)),
                   (''total_videos'', JNum (int (length videos)))])
            \<or> c = CsvFile (fst (user_csv ud videos))"
        using assms(2) None \<open>user_info r u = Inr ud\<close> Inr
        by (auto simp: scrape_user_def Let_def dest!: save_writes)
      then show ?thesis using b rl
        by (auto simp: user_csv_def user_preamble_def split: prod.splits)
    qed
  qed
qed

lemma trending_writes:
  assumes "0 < l" and "WriteFile p c \<in> set (fst (scrape_trending r tok fmt out (Some l)))"
  shows "case c of JsonFile doc \<Rightarrow> int (length (json_videos doc)) \<le> l
                 | CsvFile rws \<Rightarrow> int (length rws) \<le> 1 + l"
proof (cases "create_sessions r tok")
  case (Some e)
  then show ?thesis using assms(2) by (simp add: scrape_trending_def failed_def)
next
  case None
  show ?thesis
  proof (cases "collect (Some l) (trending_videos r (count_or (Some l) 100)) [] 0")
    case (Inl e)
    then show ?thesis using assms(2) None by (simp add: scrape_trending_def failed_def Let_def)
  next
    case (Inr videos)
    have b: "int (length videos) \<le> l"
      using collect_bound [OF assms(1) Inr] assms(1) by simp
    have rl: "length (fst (write_rows author_video_row videos)) \<le> length videos"
      by (rule write_rows_length)
    have "c = JsonFile (JObj [(''videos'', JArr (map JObj videos)),
                 (''extracted_at'', JStr (now_iso r)),
                 (''total_videos'', JNum (int (length videos)))])
          \<or> c = CsvFile (fst (author_csv videos))"
      using assms(2) None Inr
      by (auto simp: scrape_trending_def Let_def dest!: save_writes)
    then show ?thesis using b rl
      by (auto simp: author_csv_def split: prod.splits)
  qed
qed

lemma hashtag_writes:
  assumes "0 < l" and "WriteFile p c \<in> set (fst (scrape_hashtag r h tok fmt out (Some l)))"
  shows "case c of JsonFile doc \<Rightarrow> int (length (json_videos doc)) \<le> l
                 | CsvFile rws \<Rightarrow> int (length rws) \<le> 1 + l"
proof (cases "create_sessions r tok")
  case (Some e)
  then show ?thesis using assms(2) by (simp add: scrape_hashtag_def failed_def)
next
  case None
  show ?thesis
  proof (cases "collect (Some l) (hashtag_videos r h (count_or (Some l) 100)) [] 0")
    case (Inl e)
    then show ?thesis using assms(2) None by (simp add: scrape_hashtag_def failed_def Let_def)
  next
    case (Inr videos)
    have b: "int (length videos) \<le> l"
      using collect_bound [OF assms(1) Inr] assms(1) by simp
    have rl: "length (fst (write_rows author_video_row videos)) \<le> length videos"
      by (rule write_rows_length)
    have "c = JsonFile (JObj [(''hashtag'', JStr h), (''videos'', JArr (map JObj videos)),
                 (''extracted_at'', JStr (now_iso r)),
                 (''total_videos'', JNum (int (length videos)))])
          \<or> c = CsvFile (fst (author_csv videos))"
      using assms(2) None Inr
      by (auto simp: scrape_hashtag_def Let_def dest!: save_writes)
    then show ?thesis using b rl
      by (auto simp: author_csv_def split: prod.splits)
  qed
qed

text \<open>
  C2 (as amended). When the caller gives a limit of at least 1, every file the user, the
  trending or the hashtag scraper writes holds at most that many videos: the \<open>videos\<close>
  list of a JSON document has at most \<open>l\<close> entries, and a CSV file has at most \<open>l\<close> rows
  after its fixed rows (8 for a user, 1 otherwise). The collecting loop stops as soon as
  the count reaches the limit: from a remote sequence that offers at least \<open>l\<close> items,
  whatever follows them, it takes the first \<open>l\<close>. The limit 0 is read as no limit: the
  loop and the count asked for are those of a run without a limit.
\<close>

theorem limit_bounds_videos:
  assumes "0 < l"
  shows "(WriteFile p c \<in> set (fst (scrape_user r u tok fmt out (Some l))) \<longrightarrow>
            (case c of JsonFile doc \<Rightarrow> int (length (json_videos doc)) \<le> l
                     | CsvFile rws \<Rightarrow> int (length rws) \<le> 8 + l))
       \<and> (WriteFile p c \<in> set (fst (scrape_trending r tok fmt out (Some l))) \<longrightarrow>
            (case c of JsonFile doc \<Rightarrow> int (length (json_videos doc)) \<le> l
                     | CsvFile rws \<Rightarrow> int (length rws) \<le> 1 + l))
       \<and> (WriteFile p c \<in> set (fst (scrape_hashtag r h tok fmt out (Some l))) \<longrightarrow>
            (case c of JsonFile doc \<Rightarrow> int (length (json_videos doc)) \<le> l
                     | CsvFile rws \<Rightarrow> int (length rws) \<le> 1 + l))
       \<and> (l \<le> int (length xs) \<longrightarrow>
            collect (Some l) (offer xs rest) [] 0 = Inr (take (nat l) xs))
       \<and> collect (Some 0) st [] 0 = collect None st [] 0
       \<and> count_or (Some 0) dflt = count_or None dflt"
  using user_writes [OF assms] trending_writes [OF assms] hashtag_writes [OF assms]
        collect_take [OF assms, of 0 "[]" xs rest] assms collect_zero [of st "[]" 0]
  by (auto simp: count_or_def)


lemma sample_user_csv:
  "fst (scrape_user sample_remote ''alice'' ''tok'' ''csv'' (Some ''o.csv'') (Some 1)) =
     [CreateSessions ''tok'', FetchUserInfo ''alice'', FetchUserVideos ''alice'' 1,
      WriteFile ''o.csv''
       (CsvFile
         [[JStr ''Type'', JStr ''Field'', JStr ''Value''],
          [JStr ''User'', JStr ''username'', JStr ''alice''],
          [JStr ''User'', JStr ''nickname'', JStr ''Alice''],
          [JStr ''User'', JStr ''followers'', JNum 5],
          [JStr ''User'', JStr ''following'', JNum 6],
          [JStr ''User'', JStr ''videos'', JNum 2], [],
          [JStr ''Video ID'', JStr ''Description'', JStr ''Likes'', JStr ''Shares'',
           JStr ''Comments'', JStr ''Views'', JStr ''Created''],
          [JStr ''7001'', JStr ''first clip'', JNum 10, JNum 2, JNum 3, JNum 99,
           JNum 1700000000]])]"
  by code_simp

theorem limit_bounds_videos_witness:
  "WriteFile ''o.csv''
       (CsvFile
         [[JStr ''Type'', JStr ''Field'', JStr ''Value''],
          [JStr ''User'', JStr ''username'', JStr ''alice''],
          [JStr ''User'', JStr ''nickname'', JStr ''Alice''],
          [JStr ''User'', JStr ''followers'', JNum 5],
          [JStr ''User'', JStr ''following'', JNum 6],
          [JStr ''User'', JStr ''videos'', JNum 2], [],
          [JStr ''Video ID'', JStr ''Description'', JStr ''Likes'', JStr ''Shares'',
           JStr ''Comments'', JStr ''Views'', JStr ''Created''],
          [JStr ''7001'', JStr ''first clip'', JNum 10, JNum 2, JNum 3, JNum 99,
           JNum 1700000000]])
     \<in> set (fst (scrape_user sample_remote ''alice'' ''tok'' ''csv'' (Some ''o.csv'') (Some 1)))
   \<and> collect (Some 1) (offer [sample_video ''7001'' ''first clip'',
                               sample_video ''7002'' ''second clip''] End) [] 0
       = Inr [sample_video ''7001'' ''first clip'']"
proof -
  have pos: "(0::int) < 1" by simp
  show ?thesis
    using limit_bounds_videos [OF pos, where p = "''o.csv''" and r = sample_remote
            and u = "''alice''" and tok = "''tok''" and fmt = "''csv''" and out = "Some ''o.csv''"
            and xs = "[sample_video ''7001'' ''first clip'', sample_video ''7002'' ''second clip'']"
            and rest = End]
    by (simp add: sample_user_csv)
qed

text \<open>C2 as stated fails for the limit 0, which the scrapers read as no limit: they ask
  for the default count and never break, and here two videos are written.\<close>

theorem zero_limit_is_no_limit:
  "json_videos
     (JObj [(''videos'', JArr [JObj (sample_video ''7001'' ''first clip''),
                               JObj (sample_video ''7002'' ''second clip'')]),
            (''extracted_at'', JStr ''2024-01-01T00:00:00''),
            (''total_videos'', JNum 2)])
     = [JObj (sample_video ''7001'' ''first clip''), JObj (sample_video ''7002'' ''second clip'')]
   \<and> scrape_trending sample_remote ''tok'' ''json'' (Some ''o.json'') (Some 0) =
     ([CreateSessions ''tok'', FetchTrending 100,
       WriteFile ''o.json''
        (JsonFile
          (JObj [(''videos'', JArr [JObj (sample_video ''7001'' ''first clip''),
                                    JObj (sample_video ''7002'' ''second clip'')]),
                 (''extracted_at'', JStr ''2024-01-01T00:00:00''),
                 (''total_videos'', JNum 2)]))], 0)"
proof -
  have a: "scrape_trending sample_remote ''tok'' ''json'' (Some ''o.json'') (Some 0) =
     ([CreateSessions ''tok'', FetchTrending 100,
       WriteFile ''o.json''
        (JsonFile
          (JObj [(''videos'', JArr [JObj (sample_video ''7001'' ''first clip''),
                                    JObj (sample_video ''7002'' ''second clip'')]),
                 (''extracted_at'', JStr ''2024-01-01T00:00:00''),
                 (''total_videos'', JNum 2)]))], 0)"
    by code_simp
  show ?thesis unfolding a by simp
qed

section \<open>The default counts\<close>

lemma fetch_counts_append: "fetch_counts (xs @ ys) = fetch_counts xs @ fetch_counts ys"
  by (simp add: fetch_counts_def)

lemma fetch_counts_failed: "fetch_counts (fst (failed what evs e)) = fetch_counts evs"
  by (simp add: failed_def fetch_counts_def)

lemma fetch_counts_save: "fetch_counts (fst (save r what evs name fmt doc csv)) = fetch_counts evs"
  by (auto simp: save_def fetch_counts_failed fetch_counts_def failed_def
        split: option.splits prod.splits)

lemma user_counts:
  "fetch_counts (fst (scrape_user r u tok fmt out limit)) =
     (if create_sessions r tok = None \<and> (\<exists>ud. user_info r u = Inr ud)
      then [Some (count_or limit 1000)] else [])"
  by (auto simp: scrape_user_def Let_def fetch_counts_failed fetch_counts_save
        split: option.splits sum.splits)
     (simp_all add: fetch_counts_def)

lemma trending_counts:
  "fetch_counts (fst (scrape_trending r tok fmt out limit)) =
     (if create_sessions r tok = None then [Some (count_or limit 100)] else [])"
  by (auto simp: scrape_trending_def Let_def fetch_counts_failed fetch_counts_save
        split: option.splits sum.splits)
     (simp_all add: fetch_counts_def)

lemma hashtag_counts:
  "fetch_counts (fst (scrape_hashtag r h tok fmt out limit)) =
     (if create_sessions r tok = None then [Some (count_or limit 100)] else [])"
  by (auto simp: scrape_hashtag_def Let_def fetch_counts_failed fetch_counts_save
        split: option.splits sum.splits)
     (simp_all add: fetch_counts_def)

lemma video_counts:
  "set (fetch_counts (fst (scrape_video r v tok fmt out inc cl))) \<subseteq> (if inc then {cl} else {})"
  by (auto simp: scrape_video_def Let_def fetch_counts_failed fetch_counts_save
        split: option.splits sum.splits)
     (simp_all add: fetch_counts_def split: if_splits)

lemma fetch_counts_nil: "fetch_counts [] = []"
  by (simp add: fetch_counts_def)

lemma main_counts:
  assumes "opt_limit a = None" "opt_comment_limit a = None"
  shows "set (fetch_counts (fst (scraper_main r a)))
           \<subseteq> {Some (if opt_mode a = Some ''user'' then 1000 else if opt_mode a = Some ''video'' then 30 else 100)}"
proof (cases "scraper_usage_error a")
  case (Some m)
  then show ?thesis by (simp add: scraper_main_def fetch_counts_def)
next
  case None
  have run: "set (fetch_counts (evs @ fst
               (if or_default (opt_mode a) [] = ''user'' then
                  scrape_user r (or_default (opt_target a) []) tok (or_default (opt_format a) ''json'')
                    (opt_output a) (opt_limit a)
                else if or_default (opt_mode a) [] = ''trending'' then
                  scrape_trending r tok (or_default (opt_format a) ''json'') (opt_output a) (opt_limit a)
                else if or_default (opt_mode a) [] = ''hashtag'' then
                  scrape_hashtag r (or_default (opt_target a) []) tok (or_default (opt_format a) ''json'')
                    (opt_output a) (opt_limit a)
                else if or_default (opt_mode a) [] = ''video'' then
                  scrape_video r (or_default (opt_target a) []) tok (or_default (opt_format a) ''json'')
                    (opt_output a) (opt_comments a)
                    (if opt_comments a then Some (or_default (opt_comment_limit a) 30) else None)
                else ([], 0))))
           \<subseteq> {Some (if opt_mode a = Some ''user'' then 1000 else if opt_mode a = Some ''video'' then 30 else 100)}"
    if "fetch_counts evs = []" for evs tok
    using that assms
      video_counts [of r "or_default (opt_target a) []" tok "or_default (opt_format a) ''json''"
                       "opt_output a" "opt_comments a"
                       "if opt_comments a then Some (or_default (opt_comment_limit a) 30) else None"]
    by (auto simp: fetch_counts_append user_counts trending_counts hashtag_counts
          fetch_counts_nil count_or_def or_default_def split: if_splits option.splits)
  show ?thesis
  proof (cases "token_file r (or_default (opt_session a) [])")
    case N: None
    show ?thesis
      using run [of "[]" "or_default (opt_session a) []"] None N
      by (simp add: scraper_main_def Let_def split_beta fetch_counts_def)
  next
    case (Some x)
    show ?thesis
    proof (cases x)
      case (Inl e)
      then show ?thesis using None Some by (simp add: scraper_main_def Let_def fetch_counts_def)
    next
      case (Inr body)
      show ?thesis
        using run [of "[ReadFile (or_default (opt_session a) [])]" "strip body"] None Some Inr
        by (simp add: scraper_main_def Let_def split_beta fetch_counts_def)
    qed
  qed
qed

lemma collect_none_end: "collect None (offer xs End) vs n = Inr (vs @ xs)"
  by (induction xs arbitrary: vs n) simp_all

lemma collect_all_end: "collect_all (offer xs End) cs = Inr (cs @ xs)"
  by (induction xs arbitrary: cs) simp_all

lemma user_run:
  assumes "create_sessions r tok = None" "user_info r u = Inr ud"
    and "user_videos r u 1000 = offer xs End"
  shows "scrape_user r u tok fmt out None =
           save r ''user'' [CreateSessions tok, FetchUserInfo u, FetchUserVideos u 1000]
             (file_name out (''tiktok_user_'' @ u @ ''_'' @ now_stamp r @ ''.'' @ fmt)) fmt
             (JObj [(''user'', JObj ud), (''videos'', JArr (map JObj xs)),
                    (''extracted_at'', JStr (now_iso r)),
                    (''total_videos'', JNum (int (length xs)))])
             (user_csv ud xs)"
  using assms by (simp add: scrape_user_def count_or_def collect_none_end)

lemma trending_run:
  assumes "create_sessions r tok = None" "trending_videos r 100 = offer xs End"
  shows "scrape_trending r tok fmt out None =
           save r ''trending'' [CreateSessions tok, FetchTrending 100]
             (file_name out (''tiktok_trending_'' @ now_stamp r @ ''.'' @ fmt)) fmt
             (JObj [(''videos'', JArr (map JObj xs)),
                    (''extracted_at'', JStr (now_iso r)),
                    (''total_videos'', JNum (int (length xs)))])
             (author_csv xs)"
  using assms by (simp add: scrape_trending_def count_or_def collect_none_end)

lemma hashtag_run:
  assumes "create_sessions r tok = None" "hashtag_videos r h 100 = offer xs End"
  shows "scrape_hashtag r h tok fmt out None =
           save r ''hashtag'' [CreateSessions tok, FetchHashtagVideos h 100]
             (file_name out (''tiktok_hashtag_'' @ h @ ''_'' @ now_stamp r @ ''.'' @ fmt)) fmt
             (JObj [(''hashtag'', JStr h), (''videos'', JArr (map JObj xs)),
                    (''extracted_at'', JStr (now_iso r)),
                    (''total_videos'', JNum (int (length xs)))])
             (author_csv xs)"
  using assms by (simp add: scrape_hashtag_def count_or_def collect_none_end)

lemma video_run:
  assumes "create_sessions r tok = None"
    and "video_info r (if contains v ''tiktok.com'' then ByUrl v else ById v) = Inr info"
    and "slice_to 50 (dict_get info ''desc'' (JStr ''N/A'')) = Inr shown"
    and "video_comments r (if contains v ''tiktok.com'' then ByUrl v else ById v) (Some 30)
           = offer cs End"
  shows "scrape_video r v tok fmt out True (Some 30) =
           save r ''video''
             [CreateSessions tok,
              FetchVideoInfo (if contains v ''tiktok.com'' then ByUrl v else ById v),
              FetchComments (if contains v ''tiktok.com'' then ByUrl v else ById v) (Some 30)]
             (file_name out (''tiktok_video_'' @ v @ ''_'' @ now_stamp r @ ''.'' @ fmt)) fmt
             (JObj [(''video'', JObj info), (''extracted_at'', JStr (now_iso r)),
                    (''comments'', JArr (map JObj cs)),
                    (''total_comments'', JNum (int (length cs)))])
             (video_csv info True cs)"
  using assms by (simp add: scrape_video_def Let_def collect_all_end)

lemma usage_mode:
  "scraper_usage_error a = None \<Longrightarrow>
     opt_mode a = Some ''user'' \<or> opt_mode a = Some ''trending'' \<or> opt_mode a = Some ''hashtag''
     \<or> opt_mode a = Some ''video''"
  by (auto simp: scraper_usage_error_def bad_choice_def Let_def split: option.splits if_splits)

lemma main_dispatch:
  assumes "opt_limit a = None" "opt_comment_limit a = None"
    and "scraper_usage_error a = None" "token_file r (or_default (opt_session a) []) = None"
  shows "scraper_main r a =
           (if opt_mode a = Some ''user'' then
              scrape_user r (or_default (opt_target a) []) (or_default (opt_session a) [])
                (or_default (opt_format a) ''json'') (opt_output a) None
            else if opt_mode a = Some ''trending'' then
              scrape_trending r (or_default (opt_session a) [])
                (or_default (opt_format a) ''json'') (opt_output a) None
            else if opt_mode a = Some ''hashtag'' then
              scrape_hashtag r (or_default (opt_target a) []) (or_default (opt_session a) [])
                (or_default (opt_format a) ''json'') (opt_output a) None
            else
              scrape_video r (or_default (opt_target a) []) (or_default (opt_session a) [])
                (or_default (opt_format a) ''json'') (opt_output a) (opt_comments a)
                (if opt_comments a then Some 30 else None))"
  using usage_mode [OF assms(3)] assms
  by (auto simp: scraper_main_def Let_def or_default_def)

text \<open>
  C8 (as amended). When the caller gives neither \<open>--limit\<close> nor \<open>--comment-limit\<close>, the
  count the scraper asks the client library for is the default of the mode: 1000 for a
  user's videos, 100 for trending and for hashtag videos, 30 for a video's comments.
  No run asks for any other count; a run whose arguments parse and whose session is
  the token itself is the call of the mode's scraper with no limit (for a video, with
  the comment limit 30 when \<open>--comments\<close> is given); a user, trending or hashtag scrape
  whose session opens (and whose profile loads) makes exactly one fetch, with that
  count. The default is a count asked for and not a bound the scraper keeps: with no
  limit the loop over the videos has no cut-off, so every video the remote sequence
  yields before it ends is collected and saved, however many there are. A sequence of
  at most 30 comments is collected and saved whole.
\<close>

theorem default_caps:
  assumes "opt_limit a = None" "opt_comment_limit a = None"
  shows "set (fetch_counts (fst (scraper_main r a)))
           \<subseteq> {Some (if opt_mode a = Some ''user'' then 1000 else if opt_mode a = Some ''video'' then 30 else 100)}
       \<and> (scraper_usage_error a = None \<and> token_file r (or_default (opt_session a) []) = None \<longrightarrow>
            scraper_main r a =
              (if opt_mode a = Some ''user'' then
                 scrape_user r (or_default (opt_target a) []) (or_default (opt_session a) [])
                   (or_default (opt_format a) ''json'') (opt_output a) None
               else if opt_mode a = Some ''trending'' then
                 scrape_trending r (or_default (opt_session a) [])
                   (or_default (opt_format a) ''json'') (opt_output a) None
               else if opt_mode a = Some ''hashtag'' then
                 scrape_hashtag r (or_default (opt_target a) []) (or_default (opt_session a) [])
                   (or_default (opt_format a) ''json'') (opt_output a) None
               else
                 scrape_video r (or_default (opt_target a) []) (or_default (opt_session a) [])
                   (or_default (opt_format a) ''json'') (opt_output a) (opt_comments a)
                   (if opt_comments a then Some 30 else None)))
       \<and> (create_sessions r tok = None \<and> user_info r u = Inr ud \<longrightarrow>
            fetch_counts (fst (scrape_user r u tok fmt out None)) = [Some 1000])
       \<and> (create_sessions r tok = None \<longrightarrow>
            fetch_counts (fst (scrape_trending r tok fmt out None)) = [Some 100]
            \<and> fetch_counts (fst (scrape_hashtag r h tok fmt out None)) = [Some 100])
       \<and> (create_sessions r tok = None \<and> user_info r u = Inr ud
            \<and> user_videos r u 1000 = offer xs End \<longrightarrow>
            scrape_user r u tok fmt out None =
              save r ''user'' [CreateSessions tok, FetchUserInfo u, FetchUserVideos u 1000]
                (file_name out (''tiktok_user_'' @ u @ ''_'' @ now_stamp r @ ''.'' @ fmt)) fmt
                (JObj [(''user'', JObj ud), (''videos'', JArr (map JObj xs)),
                       (''extracted_at'', JStr (now_iso r)),
                       (''total_videos'', JNum (int (length xs)))])
                (user_csv ud xs))
       \<and> (create_sessions r tok = None \<and> trending_videos r 100 = offer ys End \<longrightarrow>
            scrape_trending r tok fmt out None =
              save r ''trending'' [CreateSessions tok, FetchTrending 100]
                (file_name out (''tiktok_trending_'' @ now_stamp r @ ''.'' @ fmt)) fmt
                (JObj [(''videos'', JArr (map JObj ys)),
                       (''extracted_at'', JStr (now_iso r)),
                       (''total_videos'', JNum (int (length ys)))])
                (author_csv ys))
       \<and> (create_sessions r tok = None \<and> hashtag_videos r h 100 = offer zs End \<longrightarrow>
            scrape_hashtag r h tok fmt out None =
              save r ''hashtag'' [CreateSessions tok, FetchHashtagVideos h 100]
                (file_name out (''tiktok_hashtag_'' @ h @ ''_'' @ now_stamp r @ ''.'' @ fmt)) fmt
                (JObj [(''hashtag'', JStr h), (''videos'', JArr (map JObj zs)),
                       (''extracted_at'', JStr (now_iso r)),
                       (''total_videos'', JNum (int (length zs)))])
                (author_csv zs))
       \<and> (create_sessions r tok = None
            \<and> video_info r (if contains v ''tiktok.com'' then ByUrl v else ById v) = Inr info
            \<and> slice_to 50 (dict_get info ''desc'' (JStr ''N/A'')) = Inr shown
            \<and> video_comments r (if contains v ''tiktok.com'' then ByUrl v else ById v) (Some 30)
                = offer cs End
            \<and> length cs \<le> 30 \<longrightarrow>
            scrape_video r v tok fmt out True (Some 30) =
              save r ''video''
                [CreateSessions tok,
                 FetchVideoInfo (if contains v ''tiktok.com'' then ByUrl v else ById v),
                 FetchComments (if contains v ''tiktok.com'' then ByUrl v else ById v) (Some 30)]
                (file_name out (''tiktok_video_'' @ v @ ''_'' @ now_stamp r @ ''.'' @ fmt)) fmt
                (JObj [(''video'', JObj info), (''extracted_at'', JStr (now_iso r)),
                       (''comments'', JArr (map JObj cs)),
                       (''total_comments'', JNum (int (length cs)))])
                (video_csv info True cs))"
proof -
  have c1: "set (fetch_counts (fst (scraper_main r a)))
           \<subseteq> {Some (if opt_mode a = Some ''user'' then 1000 else if opt_mode a = Some ''video'' then 30 else 100)}"
    by (rule main_counts [OF assms])
  have c3: "fetch_counts (fst (scrape_user r u tok fmt out None)) = [Some 1000]"
    if "create_sessions r tok = None" "user_info r u = Inr ud"
    using that by (simp add: user_counts count_or_def)
  have c4: "fetch_counts (fst (scrape_trending r tok fmt out None)) = [Some 100]
            \<and> fetch_counts (fst (scrape_hashtag r h tok fmt out None)) = [Some 100]"
    if "create_sessions r tok = None"
    using that by (simp add: trending_counts hashtag_counts count_or_def)
  show ?thesis
    using c1 main_dispatch [OF assms, of r] c3 c4
      user_run [of r tok u ud xs fmt out] trending_run [of r tok ys fmt out]
      hashtag_run [of r tok h zs fmt out] video_run [of r tok v info shown cs fmt out]
    by blast
qed

lemma sample_video_run:
  "fetch_counts (fst (scraper_main sample_remote
      (sample_args \<lparr> opt_target := Some ''7001'', opt_mode := Some ''video'', opt_comments := True \<rparr>)))
   = [Some 30]"
  by code_simp

lemma sample_user_run:
  "fetch_counts (fst (scraper_main sample_remote (sample_args \<lparr> opt_target := Some ''alice'' \<rparr>)))
   = [Some 1000]"
  by code_simp

theorem default_caps_witness:
  "fetch_counts (fst (scraper_main sample_remote
      (sample_args \<lparr> opt_target := Some ''7001'', opt_mode := Some ''video'', opt_comments := True \<rparr>)))
     = [Some 30]
   \<and> fetch_counts (fst (scraper_main sample_remote (sample_args \<lparr> opt_target := Some ''alice'' \<rparr>)))
     = [Some 1000]
   \<and> fetch_counts (fst (scrape_hashtag sample_remote ''cats'' ''tok'' ''json'' None None)) = [Some 100]
   \<and> scrape_trending sample_remote ''tok'' ''json'' (Some ''o.json'') None =
       ([CreateSessions ''tok'', FetchTrending 100,
         WriteFile ''o.json''
           (JsonFile (JObj [(''videos'', JArr [JObj (sample_video ''7001'' ''first clip''),
                                               JObj (sample_video ''7002'' ''second clip'')]),
                            (''extracted_at'', JStr ''2024-01-01T00:00:00''),
                            (''total_videos'', JNum 2)]))], 0)
   \<and> scrape_video sample_remote ''7001'' ''tok'' ''json'' (Some ''o.json'') True (Some 30) =
       ([CreateSessions ''tok'', FetchVideoInfo (ById ''7001''),
         FetchComments (ById ''7001'') (Some 30),
         WriteFile ''o.json''
           (JsonFile (JObj [(''video'', JObj (sample_video ''7001'' ''first clip'')),
                            (''extracted_at'', JStr ''2024-01-01T00:00:00''),
                            (''comments'', JArr [JObj (sample_comment ''c1''),
                                                 JObj (sample_comment ''c2'')]),
                            (''total_comments'', JNum 2)]))], 0)"
proof -
  have l1: "opt_limit (sample_args \<lparr> opt_target := Some ''alice'' \<rparr>) = None"
    by (simp add: sample_args_def)
  have l2: "opt_comment_limit (sample_args \<lparr> opt_target := Some ''alice'' \<rparr>) = None"
    by (simp add: sample_args_def)
  have s: "create_sessions sample_remote ''tok'' = None"
    by (simp add: sample_remote_def)
  have t: "trending_videos sample_remote 100
             = offer [sample_video ''7001'' ''first clip'', sample_video ''7002'' ''second clip''] End"
    by (simp add: sample_remote_def)
  have nc: "\<not> contains ''7001'' ''tiktok.com''" by code_simp
  have i: "video_info sample_remote (if contains ''7001'' ''tiktok.com'' then ByUrl ''7001'' else ById ''7001'')
             = Inr (sample_video ''7001'' ''first clip'')"
    by (simp add: sample_remote_def)
  have sl: "slice_to 50 (dict_get (sample_video ''7001'' ''first clip'') ''desc'' (JStr ''N/A''))
              = Inr (JStr ''first clip'')"
    by code_simp
  have c: "video_comments sample_remote
             (if contains ''7001'' ''tiktok.com'' then ByUrl ''7001'' else ById ''7001'') (Some 30)
             = offer [sample_comment ''c1'', sample_comment ''c2''] End"
    by (simp add: sample_remote_def)
  have n: "length [sample_comment ''c1'', sample_comment ''c2''] \<le> 30" by simp
  have sv: "save sample_remote what evs ''o.json'' ''json'' doc csv
              = (evs @ [WriteFile ''o.json'' (JsonFile doc)], 0)" for what evs doc csv
    by (simp add: save_def sample_remote_def)
  have fn: "file_name (Some ''o.json'') auto = ''o.json''" for auto
    by (simp add: file_name_def)
  have iso: "now_iso sample_remote = ''2024-01-01T00:00:00''"
    by (simp add: sample_remote_def)
  show ?thesis
    using default_caps [OF l1 l2, where r = sample_remote and tok = "''tok''" and h = "''cats''"
            and fmt = "''json''" and out = "Some ''o.json''" and v = "''7001''"
            and ys = "[sample_video ''7001'' ''first clip'', sample_video ''7002'' ''second clip'']"
            and info = "sample_video ''7001'' ''first clip''" and shown = "JStr ''first clip''"
            and cs = "[sample_comment ''c1'', sample_comment ''c2'']"]
          s t i sl c n nc sample_video_run sample_user_run
          hashtag_counts [of sample_remote "''cats''" "''tok''" "''json''" None None]
    by (simp add: sv fn iso count_or_def)
qed

text \<open>C8 as stated fails: the default is not a bound on the fetch. A trending run with
  no \<open>--limit\<close> asks for 100 videos and saves the 101 the remote sequence yields, and a
  video run with \<open>--comments\<close> and no \<open>--comment-limit\<close> asks for 30 comments and saves
  the 31 it is given.\<close>

theorem default_cap_exceeded:
  "scraper_main flood_remote (sample_args \<lparr> opt_mode := Some ''trending'', opt_target := Some ''any'' \<rparr>)
     = ([CreateSessions ''tok'', FetchTrending 100,
         WriteFile ''out.json''
           (JsonFile (JObj [(''videos'', JArr (replicate 101 (JObj (sample_video ''7001'' ''first clip'')))),
                            (''extracted_at'', JStr ''2024-01-01T00:00:00''),
                            (''total_videos'', JNum 101)]))], 0)
   \<and> scraper_main flood_remote
       (sample_args \<lparr> opt_mode := Some ''video'', opt_target := Some ''7001'', opt_comments := True \<rparr>)
     = ([CreateSessions ''tok'', FetchVideoInfo (ById ''7001''),
         FetchComments (ById ''7001'') (Some 30),
         WriteFile ''out.json''
           (JsonFile (JObj [(''video'', JObj (sample_video ''7001'' ''first clip'')),
                            (''extracted_at'', JStr ''2024-01-01T00:00:00''),
                            (''comments'', JArr (replicate 31 (JObj (sample_comment ''c1'')))),
                            (''total_comments'', JNum 31)]))], 0)"
proof -
  let ?t = "sample_args \<lparr> opt_mode := Some ''trending'', opt_target := Some ''any'' \<rparr>"
  let ?v = "sample_args \<lparr> opt_mode := Some ''video'', opt_target := Some ''7001'', opt_comments := True \<rparr>"
  have ut: "scraper_usage_error ?t = None" by code_simp
  have uv: "scraper_usage_error ?v = None" by code_simp
  have tf: "token_file flood_remote p = None" for p
    by (simp add: flood_remote_def sample_remote_def)
  have s: "create_sessions flood_remote ''tok'' = None"
    by (simp add: flood_remote_def sample_remote_def)
  have sv: "save flood_remote what evs ''out.json'' ''json'' doc csv
              = (evs @ [WriteFile ''out.json'' (JsonFile doc)], 0)" for what evs doc csv
    by (simp add: save_def flood_remote_def sample_remote_def)
  have fn: "file_name (Some ''out.json'') auto = ''out.json''" for auto
    by (simp add: file_name_def)
  have iso: "now_iso flood_remote = ''2024-01-01T00:00:00''"
    by (simp add: flood_remote_def sample_remote_def)
  have nc: "\<not> contains ''7001'' ''tiktok.com''" by code_simp
  have sl: "slice_to 50 (dict_get (sample_video ''7001'' ''first clip'') ''desc'' (JStr ''N/A''))
              = Inr (JStr ''first clip'')"
    by code_simp
  have tv: "trending_videos flood_remote 100
              = offer (replicate 101 (sample_video ''7001'' ''first clip'')) End"
    by (simp add: flood_remote_def)
  have vi: "video_info flood_remote (ById ''7001'') = Inr (sample_video ''7001'' ''first clip'')"
    by (simp add: flood_remote_def sample_remote_def)
  have vc: "video_comments flood_remote (ById ''7001'') (Some 30)
              = offer (replicate 31 (sample_comment ''c1'')) End"
    by (simp add: flood_remote_def)
  have mt: "scraper_main flood_remote ?t = scrape_trending flood_remote ''tok'' ''json'' (Some ''out.json'') None"
    using main_dispatch [of ?t flood_remote] ut tf
    by (simp add: sample_args_def or_default_def)
  have mv: "scraper_main flood_remote ?v
              = scrape_video flood_remote ''7001'' ''tok'' ''json'' (Some ''out.json'') True (Some 30)"
    using main_dispatch [of ?v flood_remote] uv tf
    by (simp add: sample_args_def or_default_def)
  have rt: "scrape_trending flood_remote ''tok'' ''json'' (Some ''out.json'') None
     = ([CreateSessions ''tok'', FetchTrending 100,
         WriteFile ''out.json''
           (JsonFile (JObj [(''videos'', JArr (replicate 101 (JObj (sample_video ''7001'' ''first clip'')))),
                            (''extracted_at'', JStr ''2024-01-01T00:00:00''),
                            (''total_videos'', JNum 101)]))], 0)"
    using trending_run [of flood_remote "''tok''"
            "replicate 101 (sample_video ''7001'' ''first clip'')" "''json''" "Some ''out.json''"] s tv
    by (simp add: sv fn iso)
  have rv: "scrape_video flood_remote ''7001'' ''tok'' ''json'' (Some ''out.json'') True (Some 30)
     = ([CreateSessions ''tok'', FetchVideoInfo (ById ''7001''),
         FetchComments (ById ''7001'') (Some 30),
         WriteFile ''out.json''
           (JsonFile (JObj [(''video'', JObj (sample_video ''7001'' ''first clip'')),
                            (''extracted_at'', JStr ''2024-01-01T00:00:00''),
                            (''comments'', JArr (replicate 31 (JObj (sample_comment ''c1'')))),
                            (''total_comments'', JNum 31)]))], 0)"
    using video_run [of flood_remote "''tok''" "''7001''" "sample_video ''7001'' ''first clip''"
            "JStr ''first clip''" "replicate 31 (sample_comment ''c1'')" "''json''" "Some ''out.json''"]
          s sl nc vi vc
    by (simp add: sv fn iso)
  show ?thesis unfolding mt mv rt rv by simp
qed

section \<open>A missing target\<close>

text \<open>
  C3 (as amended). Without \<open>--target\<close> the scraper never gets past \<open>parse_args\<close>: the
  option is required there, so the process ends with a usage message on standard error
  and status 2, in every mode, and nothing else happens. The mock generator, run in the
  mode user, hashtag or video without \<open>--target\<close>, prints its banner (unless quiet) and
  the error line and ends with status 1, without calling a generator function.
\<close>

theorem missing_target:
  assumes "opt_target a = None"
  shows "snd (scraper_main r a) = 2 \<and> (\<exists>m. fst (scraper_main r a) = [Stderr m])
       \<and> (mock_usage_error a = None
            \<and> (opt_mode a = Some ''user'' \<or> opt_mode a = Some ''hashtag'' \<or> opt_mode a = Some ''video'') \<longrightarrow>
            mock_main gen random_id a =
              ((if opt_quiet a then []
                else [Print (YELLOW @ '' [MOCK/TEST MODE] - Generating fake data for testing''),
                      Print (YELLOW @ '' [MOCK] No real TikTok API calls will be made''),
                      Print []])
               @ [Print (RED @ '' Error: --target is required for '' @ or_default (opt_mode a) []
                         @ '' mode'')], 1))"
proof -
  have u: "scraper_usage_error a \<noteq> None"
    using assms by (simp add: scraper_usage_error_def Let_def split: option.splits)
  then obtain m where m: "scraper_usage_error a = Some m" by blast
  have s: "scraper_main r a = ([Stderr m], 2)"
    using m by (simp add: scraper_main_def)
  have k: "mock_main gen random_id a =
              ((if opt_quiet a then []
                else [Print (YELLOW @ '' [MOCK/TEST MODE] - Generating fake data for testing''),
                      Print (YELLOW @ '' [MOCK] No real TikTok API calls will be made''),
                      Print []])
               @ [Print (RED @ '' Error: --target is required for '' @ or_default (opt_mode a) []
                         @ '' mode'')], 1)"
    if "mock_usage_error a = None"
       "opt_mode a = Some ''user'' \<or> opt_mode a = Some ''hashtag'' \<or> opt_mode a = Some ''video''"
    using that assms by (auto simp: mock_main_def Let_def or_default_def)
  show ?thesis using s k by auto
qed

lemma sample_no_target: "opt_target sample_args = None"
  by (simp add: sample_args_def)

theorem missing_target_witness:
  "snd (scraper_main sample_remote sample_args) = 2
   \<and> mock_main (\<lambda>c. ([], 0)) ''7000000000000000001'' sample_args =
       ([Print ''[!] [MOCK/TEST MODE] - Generating fake data for testing'',
         Print ''[!] [MOCK] No real TikTok API calls will be made'',
         Print [],
         Print ''[X] Error: --target is required for user mode''], 1)"
proof -
  have m: "mock_usage_error sample_args = None"
    by (simp add: mock_usage_error_def bad_choice_def sample_args_def)
  have o: "opt_mode sample_args = Some ''user''" "\<not> opt_quiet sample_args"
    by (simp_all add: sample_args_def)
  show ?thesis
    using missing_target [OF sample_no_target, where r = sample_remote
            and gen = "\<lambda>c. ([], 0)" and random_id = "''7000000000000000001''"] m o
    by (simp add: or_default_def YELLOW_def RED_def)
qed

text \<open>C3 as stated fails for the scraper: its exit status without \<open>--target\<close> is 2,
  not 1.\<close>

theorem scraper_missing_target_exits_2:
  "scraper_main sample_remote sample_args =
     ([Stderr ''the following arguments are required: -t/--target''], 2)"
  by code_simp

section \<open>The layout of the CSV output\<close>

lemma write_rows_ok:
  "write_rows mk xs = (rs, None) \<Longrightarrow> length rs = length xs \<and> (\<forall>row \<in> set rs. \<exists>x \<in> set xs. mk x = Inr row)"
proof (induction xs arbitrary: rs)
  case Nil
  then show ?case by simp
next
  case (Cons x xs)
  obtain r where r: "mk x = Inr r" using Cons.prems by (cases "mk x") auto
  obtain rs' e where w: "write_rows mk xs = (rs', e)" by (cases "write_rows mk xs")
  have e: "e = None" "rs = r # rs'" using Cons.prems r w by auto
  from Cons.IH [of rs'] w e have "length rs' = length xs \<and> (\<forall>row \<in> set rs'. \<exists>x \<in> set xs. mk x = Inr row)"
    by simp
  then show ?case using e r by auto
qed

lemma slice_short: "slice_to 100 x = Inr d \<Longrightarrow> short d"
  by (cases x) auto

lemma user_row_shape: "user_video_row v = Inr row \<Longrightarrow> length row = 7 \<and> short (row ! 1)"
  by (auto simp: user_video_row_def split: sum.splits dest: slice_short)

lemma author_row_shape: "author_video_row v = Inr row \<Longrightarrow> length row = 8 \<and> short (row ! 2)"
  by (auto simp: author_video_row_def split: sum.splits dest: slice_short)

lemma comment_row_shape: "comment_row v = Inr row \<Longrightarrow> length row = 5 \<and> short (row ! 2)"
  by (auto simp: comment_row_def split: sum.splits dest: slice_short)

lemma author_csv_layout:
  assumes "author_csv videos = (rws, None)"
  shows "\<exists>rs. rws = author_video_header # rs \<and> length rs = length videos
              \<and> (\<forall>row \<in> set rs. length row = 8 \<and> short (row ! 2))"
proof -
  obtain rs e where w: "write_rows author_video_row videos = (rs, e)"
    by (cases "write_rows author_video_row videos")
  then have "e = None" "rws = author_video_header # rs"
    using assms by (auto simp: author_csv_def)
  then show ?thesis using write_rows_ok [of author_video_row videos rs] w author_row_shape
    by blast
qed

lemma user_csv_layout:
  assumes "user_csv ud videos = (rws, None)"
  shows "\<exists>rs. rws = user_preamble ud @ user_video_header # rs \<and> length rs = length videos
              \<and> (\<forall>row \<in> set rs. length row = 7 \<and> short (row ! 1))"
proof -
  obtain rs e where w: "write_rows user_video_row videos = (rs, e)"
    by (cases "write_rows user_video_row videos")
  then have "e = None" "rws = user_preamble ud @ user_video_header # rs"
    using assms by (auto simp: user_csv_def)
  then show ?thesis using write_rows_ok [of user_video_row videos rs] w user_row_shape
    by blast
qed

lemma video_csv_layout:
  assumes "video_csv info inc comments = (rws, None)"
  shows "\<exists>top rs. length top = 8 \<and> hd top = map JStr [''Type'', ''Field'', ''Value'']
           \<and> (if inc \<and> comments \<noteq> []
               then rws = top @ [] # comment_header # rs \<and> length rs = length comments
                    \<and> (\<forall>row \<in> set rs. length row = 5 \<and> short (row ! 2))
               else rws = top)"
proof -
  obtain author likes shares ncomments views where g:
    "sub_get info ''author'' ''uniqueId'' = Inr author"
    "sub_get info ''stats'' ''diggCount'' = Inr likes"
    "sub_get info ''stats'' ''shareCount'' = Inr shares"
    "sub_get info ''stats'' ''commentCount'' = Inr ncomments"
    "sub_get info ''stats'' ''playCount'' = Inr views"
    using assms by (auto simp: video_csv_def Let_def split: sum.splits)
  let ?top = "[map JStr [''Type'', ''Field'', ''Value''],
                 [JStr ''Video'', JStr ''id'', dict_get info ''id'' (JStr [])],
                 [JStr ''Video'', JStr ''description'', dict_get info ''desc'' (JStr [])],
                 [JStr ''Video'', JStr ''author'', author],
                 [JStr ''Video'', JStr ''likes'', likes],
                 [JStr ''Video'', JStr ''shares'', shares],
                 [JStr ''Video'', JStr ''comments'', ncomments],
                 [JStr ''Video'', JStr ''views'', views]]"
  show ?thesis
  proof (cases "inc \<and> comments \<noteq> []")
    case False
    then have "rws = ?top" using assms g by (auto simp: video_csv_def Let_def)
    then show ?thesis using False by (intro exI [of _ ?top]) auto
  next
    case True
    obtain rs e where w: "write_rows comment_row comments = (rs, e)"
      by (cases "write_rows comment_row comments")
    then have "e = None" "rws = ?top @ [] # comment_header # rs"
      using assms g True by (auto simp: video_csv_def Let_def)
    then show ?thesis
      using write_rows_ok [of comment_row comments rs] w comment_row_shape True
      by (intro exI [of _ ?top] exI [of _ rs]) auto
  qed
qed

text \<open>
  C4 (as amended). When the CSV branch runs to its end (no row raises), the trending and
  the hashtag scraper write the fixed eight-column header and then one row of eight
  cells per collected video; the user scraper writes seven fixed rows first (the
  \<open>Type, Field, Value\<close> header, five rows about the user, an empty row), then the fixed
  seven-column video header and one row of seven cells per video; the video scraper
  writes eight rows about the video, headed by \<open>Type, Field, Value\<close>, and, when comments
  were asked for and at least one was collected, an empty row, the fixed comment header
  and one row of five cells per comment. In every row written for an item the
  description (or comment text) cell is the item's value cut to at most 100 characters.
  With a file that opens and a format other than \<open>json\<close>, these rows are what \<open>save\<close>
  writes, with status 0.
\<close>

theorem csv_layout:
  "(author_csv videos = (rws, None) \<longrightarrow>
      (\<exists>rs. rws = author_video_header # rs \<and> length rs = length videos
             \<and> (\<forall>row \<in> set rs. length row = 8 \<and> short (row ! 2))))
   \<and> (user_csv ud videos = (rws, None) \<longrightarrow>
      (\<exists>rs. rws = user_preamble ud @ user_video_header # rs \<and> length rs = length videos
             \<and> (\<forall>row \<in> set rs. length row = 7 \<and> short (row ! 1))))
   \<and> (video_csv info inc comments = (rws, None) \<longrightarrow>
      (\<exists>top rs. length top = 8 \<and> hd top = map JStr [''Type'', ''Field'', ''Value'']
           \<and> (if inc \<and> comments \<noteq> []
               then rws = top @ [] # comment_header # rs \<and> length rs = length comments
                    \<and> (\<forall>row \<in> set rs. length row = 5 \<and> short (row ! 2))
               else rws = top)))
   \<and> (open_fails r name = None \<and> fmt \<noteq> ''json'' \<longrightarrow>
        save r what evs name fmt doc (rws, None) = (evs @ [WriteFile name (CsvFile rws)], 0))"
  using author_csv_layout user_csv_layout video_csv_layout
  by (auto simp: save_def)


lemma sample_author_csv:
  "author_csv [sample_video ''7001'' ''first clip''] =
     ([author_video_header,
       [JStr ''7001'', JStr ''alice'', JStr ''first clip'', JNum 10, JNum 2, JNum 3, JNum 99,
        JNum 1700000000]], None)"
  by code_simp

theorem csv_layout_witness:
  "author_csv [sample_video ''7001'' ''first clip''] =
     ([author_video_header,
       [JStr ''7001'', JStr ''alice'', JStr ''first clip'', JNum 10, JNum 2, JNum 3, JNum 99,
        JNum 1700000000]], None)
   \<and> (\<exists>rs. [author_video_header,
             [JStr ''7001'', JStr ''alice'', JStr ''first clip'', JNum 10, JNum 2, JNum 3, JNum 99,
              JNum 1700000000]] = author_video_header # rs
           \<and> length rs = length [sample_video ''7001'' ''first clip'']
           \<and> list_all (\<lambda>row. length row = 8 \<and> short (row ! 2)) rs)"
  using csv_layout [where videos = "[sample_video ''7001'' ''first clip'']"
          and rws = "[author_video_header,
             [JStr ''7001'', JStr ''alice'', JStr ''first clip'', JNum 10, JNum 2, JNum 3, JNum 99,
              JNum 1700000000]]"]
        sample_author_csv
  by (simp add: list_all_iff)

text \<open>C4 as stated fails in user mode: the CSV file of a run with one video has nine
  rows and starts with the \<open>Type, Field, Value\<close> row, not with the video header.\<close>

theorem user_csv_has_preamble:
  "fst (scrape_user sample_remote ''alice'' ''tok'' ''csv'' (Some ''o.csv'') (Some 1)) =
     [CreateSessions ''tok'', FetchUserInfo ''alice'', FetchUserVideos ''alice'' 1,
      WriteFile ''o.csv''
       (CsvFile
         [[JStr ''Type'', JStr ''Field'', JStr ''Value''],
          [JStr ''User'', JStr ''username'', JStr ''alice''],
          [JStr ''User'', JStr ''nickname'', JStr ''Alice''],
          [JStr ''User'', JStr ''followers'', JNum 5],
          [JStr ''User'', JStr ''following'', JNum 6],
          [JStr ''User'', JStr ''videos'', JNum 2], [],
          [JStr ''Video ID'', JStr ''Description'', JStr ''Likes'', JStr ''Shares'',
           JStr ''Comments'', JStr ''Views'', JStr ''Created''],
          [JStr ''7001'', JStr ''first clip'', JNum 10, JNum 2, JNum 3, JNum 99,
           JNum 1700000000]])]
   \<and> snd (scrape_user sample_remote ''alice'' ''tok'' ''csv'' (Some ''o.csv'') (Some 1)) = 0"
proof -
  have "snd (scrape_user sample_remote ''alice'' ''tok'' ''csv'' (Some ''o.csv'') (Some 1)) = 0"
    by code_simp
  then show ?thesis using sample_user_csv by simp
qed

end
